theory Spec2Isabelle
  imports Complex_Main
begin

section \<open>Numbers and vectors\<close>

text \<open>
  JavaScript numbers are modelled as real numbers: every statement below is about the
  arithmetic the source writes down, not about its rounding. \<open>THREE.Vector3\<close> is a
  record of three numbers (fields \<open>vx\<close>, \<open>vy\<close>, \<open>vz\<close> for the source's
  \<open>x\<close>, \<open>y\<close>, \<open>z\<close>).
\<close>

record vector3 =
  vx :: real
  vy :: real
  vz :: real

definition vec :: "real \<Rightarrow> real \<Rightarrow> real \<Rightarrow> vector3" where
  "vec a b c = \<lparr>vx = a, vy = b, vz = c\<rparr>"

definition vadd :: "vector3 \<Rightarrow> vector3 \<Rightarrow> vector3" where
  "vadd u v = \<lparr>vx = vx u + vx v, vy = vy u + vy v, vz = vz u + vz v\<rparr>"

definition multiplyScalar :: "vector3 \<Rightarrow> real \<Rightarrow> vector3" where
  "multiplyScalar v s = \<lparr>vx = vx v * s, vy = vy v * s, vz = vz v * s\<rparr>"

definition vlength :: "vector3 \<Rightarrow> real" where
  "vlength v = sqrt (vx v * vx v + vy v * vy v + vz v * vz v)"

text \<open>\<open>Vector3.normalize\<close> divides by \<open>length() || 1\<close>.\<close>

definition normalize :: "vector3 \<Rightarrow> vector3" where
  "normalize v =
     (let l = (if vlength v = 0 then 1 else vlength v)
      in \<lparr>vx = vx v / l, vy = vy v / l, vz = vz v / l\<rparr>)"

text \<open>
  \<open>Vector3.applyQuaternion(model.quaternion)\<close>, for the quaternion three.js keeps in
  step with the Euler angles \<open>model.rotation\<close> (order XYZ): the vector is turned about
  Z, then Y, then X. Only a vector on the local Z axis is ever passed, so the Z angle
  drops out and the model keeps the X and Y angles of the rotation.
\<close>

definition rotateX :: "real \<Rightarrow> vector3 \<Rightarrow> vector3" where
  "rotateX a v = \<lparr>vx = vx v, vy = vy v * cos a - vz v * sin a, vz = vy v * sin a + vz v * cos a\<rparr>"

definition rotateY :: "real \<Rightarrow> vector3 \<Rightarrow> vector3" where
  "rotateY a v = \<lparr>vx = vx v * cos a + vz v * sin a, vy = vy v, vz = vz v * cos a - vx v * sin a\<rparr>"

definition applyQuaternion :: "real \<Rightarrow> real \<Rightarrow> vector3 \<Rightarrow> vector3" where
  "applyQuaternion rx ry v = rotateX rx (rotateY ry v)"

definition lerp :: "real \<Rightarrow> real \<Rightarrow> real \<Rightarrow> real" where
  "lerp a b t = a + (b - a) * t"

definition lerpVectors :: "vector3 \<Rightarrow> vector3 \<Rightarrow> real \<Rightarrow> vector3" where
  "lerpVectors u v t =
     \<lparr>vx = vx u + (vx v - vx u) * t, vy = vy u + (vy v - vy u) * t, vz = vz u + (vz v - vz u) * t\<rparr>"

section \<open>Player constants\<close>

definition GRAVITY :: real where "GRAVITY = -15"
definition JUMP_FORCE :: real where "JUMP_FORCE = 8"
definition RAYCAST_HEIGHT :: real where "RAYCAST_HEIGHT = 5"
definition GROUNDED_BUFFER_TIME :: real where "GROUNDED_BUFFER_TIME = 2 / 10"
definition GROUND_TOLERANCE :: real where "GROUND_TOLERANCE = 1 / 10"
definition SPAWN_ALTITUDE :: real where "SPAWN_ALTITUDE = 240"
definition SPAWN_INITIAL_VELOCITY :: real where "SPAWN_INITIAL_VELOCITY = -1"
definition WALK_SPEED :: real where "WALK_SPEED = 25 / 10"
definition SPRINT_SPEED :: real where "SPRINT_SPEED = 5"
definition AIR_CONTROL_FACTOR :: real where "AIR_CONTROL_FACTOR = 6 / 10"
definition TERMINAL_VELOCITY :: real where "TERMINAL_VELOCITY = -45"
definition FALL_ANIM_DELAY :: real where "FALL_ANIM_DELAY = 4 / 10"

section \<open>Player state\<close>

text \<open>
  An animation action of the three.js mixer, as far as \<open>Player\<close> drives it: whether it
  plays, its local time, time scale and weight, its loop mode and whether it holds its
  last frame. \<open>mixer.clipAction\<close> hands out actions that repeat (\<open>LoopRepeat\<close>) and do
  not clamp; that default belongs to three.js.
\<close>

datatype loop_mode = LoopOnce | LoopRepeat

record action =
  playing :: bool
  time :: real
  timeScale :: real
  weight :: real
  loop :: loop_mode
  clampWhenFinished :: bool

definition clipAction :: action where
  "clipAction = \<lparr>playing = False, time = 0, timeScale = 1, weight = 1, loop = LoopRepeat,
     clampWhenFinished = False\<rparr>"

definition stop :: "action \<Rightarrow> action" where
  "stop a = a\<lparr>playing := False, time := 0\<rparr>"

text \<open>\<open>target.reset().setEffectiveTimeScale(1).setEffectiveWeight(1).play()\<close>\<close>

definition restart_action :: "action \<Rightarrow> action" where
  "restart_action a = a\<lparr>playing := True, time := 0, timeScale := 1, weight := 1\<rparr>"

record flags =
  idle :: bool
  walking :: bool
  sprinting :: bool
  jumping :: bool
  falling :: bool

text \<open>
  The fields of a \<open>Player\<close>. \<open>hasModel\<close> and \<open>hasMixer\<close> say that \<open>this.model\<close> and
  \<open>this.mixer\<close> are not \<open>null\<close>; \<open>position\<close>, \<open>rotationX\<close> and \<open>rotationY\<close> are
  \<open>model.position\<close>, \<open>model.rotation.x\<close> and \<open>model.rotation.y\<close>. \<open>animations\<close> is
  the object of loaded actions in insertion order, \<open>mixerTime\<close> the clock of the mixer
  and \<open>console\<close> the lines this player has passed to \<open>console.warn\<close>.
\<close>

record player =
  hasModel :: bool
  hasMixer :: bool
  position :: vector3
  rotationX :: real
  rotationY :: real
  animations :: "(string \<times> action) list"
  currentAnimation :: "string option"
  spawnPoint :: vector3
  state :: flags
  verticalVelocity :: real
  walkToSprintTime :: real
  timeSinceGrounded :: real
  feetOffset :: real
  mixerTime :: real
  console :: "string list"

text \<open>
  The constructor. Before \<open>load\<close> there is no model; \<open>position\<close> and the rotation
  hold the values of a fresh scene root, which is what \<open>load\<close> starts from.
\<close>

definition newPlayer :: player where
  "newPlayer =
     \<lparr>hasModel = False, hasMixer = False, position = vec 0 0 0, rotationX = 0, rotationY = 0,
      animations = [], currentAnimation = None, spawnPoint = vec 0 0 0,
      state = \<lparr>idle = False, walking = False, sprinting = False, jumping = True, falling = True\<rparr>,
      verticalVelocity = SPAWN_INITIAL_VELOCITY, walkToSprintTime = 0,
      timeSinceGrounded = GROUNDED_BUFFER_TIME + 1 / 100, feetOffset = 0, mixerTime = 0,
      console = []\<rparr>"

section \<open>Switching animations\<close>

definition updateAction :: "string \<Rightarrow> (action \<Rightarrow> action) \<Rightarrow> (string \<times> action) list \<Rightarrow> (string \<times> action) list" where
  "updateAction name f as = map (\<lambda>(k, a). if k = name then (k, f a) else (k, a)) as"

text \<open>
  \<open>this.animations[this.currentAnimation]\<close>: a property key is a string, so the key
  of \<open>null\<close> is the string \<open>null\<close>. \<open>switchAnimation\<close> is the method on the names the
  player itself passes, \<open>jump\<close>, \<open>idle\<close>, \<open>walk\<close> and \<open>sprint\<close>: its lookup finds
  the loaded actions only. \<open>switchAnimationCall\<close> below is the method for every name,
  the names a JavaScript object inherits included. The \<open>fade\<close> argument is accepted and
  not used, as in the source.
\<close>

definition animationKey :: "string option \<Rightarrow> string" where
  "animationKey c = (case c of None \<Rightarrow> ''null'' | Some n \<Rightarrow> n)"

definition warning :: "string \<Rightarrow> string" where
  "warning name = ''[Animation] '' @ [CHR 0x27] @ name @ [CHR 0x27] @ '' not found''"

definition switchAnimation :: "string \<Rightarrow> real \<Rightarrow> player \<Rightarrow> player" where
  "switchAnimation name fade p =
     (case map_of (animations p) name of
        None \<Rightarrow> p\<lparr>console := console p @ [warning name]\<rparr>
      | Some target \<Rightarrow>
          if currentAnimation p = Some name then p
          else
            let previous = animationKey (currentAnimation p);
                as1 = (case map_of (animations p) previous of
                         None \<Rightarrow> animations p
                       | Some _ \<Rightarrow> updateAction previous stop (animations p));
                as2 = updateAction name restart_action as1;
                as3 = (if name = ''jump''
                       then updateAction name (\<lambda>a. a\<lparr>loop := LoopOnce, clampWhenFinished := True\<rparr>) as2
                       else as2)
            in p\<lparr>currentAnimation := Some name, animations := as3\<rparr>)"

text \<open>
  \<open>this.animations\<close> is a plain object \<open>{}\<close>, so \<open>this.animations[name]\<close> also
  finds what every object inherits from \<open>Object.prototype\<close>: functions, and under
  \<open>__proto__\<close> the prototype itself. All of these are truthy and none has a \<open>stop\<close>
  or \<open>reset\<close> method, so calling one throws a \<open>TypeError\<close>. (A clip stored under
  \<open>__proto__\<close> would replace the prototype; such an asset is outside the model.)
\<close>

definition objectPrototypeKeys :: "string list" where
  "objectPrototypeKeys =
     [''constructor'', ''__defineGetter__'', ''__defineSetter__'', ''hasOwnProperty'',
      ''__lookupGetter__'', ''__lookupSetter__'', ''isPrototypeOf'', ''propertyIsEnumerable'',
      ''toString'', ''valueOf'', ''__proto__'', ''toLocaleString'']"

datatype property = Undefined | Own action | Inherited

definition getProperty :: "(string \<times> action) list \<Rightarrow> string \<Rightarrow> property" where
  "getProperty as k =
     (case map_of as k of
        Some a \<Rightarrow> Own a
      | None \<Rightarrow> if k \<in> set objectPrototypeKeys then Inherited else Undefined)"

text \<open>
  How a call ends: it returns, or it throws a \<open>TypeError\<close>; either way with the
  player as the call has left it.
\<close>

datatype outcome = Returned player | TypeError player

text \<open>
  \<open>_switchAnimation(name, fade)\<close> for any name. The warning is for a falsy lookup
  only. After the test for the current clip the method assigns \<open>currentAnimation\<close>,
  calls \<open>previous.stop()\<close> if the previous lookup is truthy and then
  \<open>target.reset()\<close>; the first of these calls on an inherited value throws.
\<close>

definition switchAnimationCall :: "string \<Rightarrow> real \<Rightarrow> player \<Rightarrow> outcome" where
  "switchAnimationCall name fade p =
     (case getProperty (animations p) name of
        Undefined \<Rightarrow> Returned (p\<lparr>console := console p @ [warning name]\<rparr>)
      | target \<Rightarrow>
          if currentAnimation p = Some name then Returned p
          else
            let previousKey = animationKey (currentAnimation p);
                previous = getProperty (animations p) previousKey;
                p1 = p\<lparr>currentAnimation := Some name\<rparr>
            in if previous = Inherited then TypeError p1
               else
                 let p2 = (if previous = Undefined then p1
                           else p1\<lparr>animations := updateAction previousKey stop (animations p1)\<rparr>)
                 in if target = Inherited then TypeError p2
                    else
                      let as2 = updateAction name restart_action (animations p2);
                          as3 = (if name = ''jump''
                                 then updateAction name
                                        (\<lambda>a. a\<lparr>loop := LoopOnce, clampWhenFinished := True\<rparr>) as2
                                 else as2)
                      in Returned (p2\<lparr>animations := as3\<rparr>))"

section \<open>Reset\<close>

definition reset :: "player \<Rightarrow> player" where
  "reset p =
     (if \<not> hasModel p then p
      else switchAnimation ''jump'' (1 / 10)
        (p\<lparr>position := spawnPoint p,
           rotationX := 0,
           rotationY := pi,
           verticalVelocity := SPAWN_INITIAL_VELOCITY,
           timeSinceGrounded := GROUNDED_BUFFER_TIME + 1 / 100,
           state := \<lparr>idle = False, walking = False, sprinting = False, jumping = True,
                      falling = True\<rparr>\<rparr>))"

section \<open>Loading\<close>

text \<open>
  \<open>load\<close> reads three things from the assets: the lowest point of the bounding box of
  the scaled model, the bounding box of the world (its centre and its top) and the names
  of the animation clips. A clip is stored under the lower-cased part of its name after
  the first \<open>|\<close>, or under its lower-cased name when there is no such part; clip names
  are taken to be ASCII.
\<close>

fun split :: "char \<Rightarrow> string \<Rightarrow> string list" where
  "split sep [] = [[]]"
| "split sep (c # cs) =
     (if c = sep then [] # split sep cs
      else (case split sep cs of [] \<Rightarrow> [[c]] | w # ws \<Rightarrow> (c # w) # ws))"

definition toLowerChar :: "char \<Rightarrow> char" where
  "toLowerChar c =
     (case map_of (zip ''ABCDEFGHIJKLMNOPQRSTUVWXYZ'' ''abcdefghijklmnopqrstuvwxyz'') c of
        None \<Rightarrow> c
      | Some l \<Rightarrow> l)"

definition toLowerCase :: "string \<Rightarrow> string" where
  "toLowerCase s = map toLowerChar s"

definition clipKey :: "string \<Rightarrow> string" where
  "clipKey clipName =
     (case split (CHR ''|'') clipName of
        _ # s # _ \<Rightarrow> (if toLowerCase s = [] then toLowerCase clipName else toLowerCase s)
      | _ \<Rightarrow> toLowerCase clipName)"

text \<open>\<open>this.animations[name] = ...\<close>: a new key is appended, a known key keeps its place.\<close>

definition assign :: "string \<Rightarrow> action \<Rightarrow> (string \<times> action) list \<Rightarrow> (string \<times> action) list" where
  "assign k v as =
     (if map_of as k = None then as @ [(k, v)]
      else map (\<lambda>(k', a). if k' = k then (k', v) else (k', a)) as)"

definition addClip :: "string \<Rightarrow> (string \<times> action) list \<Rightarrow> (string \<times> action) list" where
  "addClip clipName as =
     (let name = clipKey clipName in if name = ''grounded'' then as else assign name clipAction as)"

definition load :: "real \<Rightarrow> vector3 \<Rightarrow> real \<Rightarrow> string list \<Rightarrow> player \<Rightarrow> player" where
  "load bboxMinY center worldMaxY clipNames p =
     (let p1 = p\<lparr>hasModel := True, feetOffset := - bboxMinY,
                  spawnPoint := vec (vx center) (worldMaxY + SPAWN_ALTITUDE) (vz center)\<rparr>;
          p2 = p1\<lparr>position := spawnPoint p1, rotationY := pi, hasMixer := True\<rparr>;
          p3 = p2\<lparr>animations := fold addClip clipNames (animations p2)\<rparr>;
          p4 = p3\<lparr>animations := map (\<lambda>(k, a). (k, stop a)) (animations p3)\<rparr>
      in switchAnimation ''jump'' 0 p4)"

section \<open>The per-frame update of the player\<close>

text \<open>The input snapshot \<open>controlsState\<close>.\<close>

record controls =
  forward :: bool
  backward :: bool
  left :: bool
  right :: bool
  jump :: bool
  mouseLookActive :: bool

text \<open>
  An intersection returned by the raycaster: its distance from the ray origin and the
  point hit. \<open>raycaster.intersectObjects(mapCollider, true)\<close> for a ray pointing
  straight down is a function from the ray origin to the intersections, closest first;
  the update takes that function as its \<open>raycast\<close> argument.
\<close>

record hit =
  distance :: real
  point :: vector3

definition groundSensor :: "hit list \<Rightarrow> real \<Rightarrow> bool" where
  "groundSensor hits fo =
     (case hits of [] \<Rightarrow> False
      | h # _ \<Rightarrow> distance h < RAYCAST_HEIGHT + fo + GROUND_TOLERANCE)"

definition groundCheck :: "real \<Rightarrow> bool \<Rightarrow> player \<Rightarrow> player" where
  "groundCheck delta grounded p =
     (if grounded then
        (let p1 = p\<lparr>timeSinceGrounded := 0\<rparr>
         in if falling (state p1) \<or> jumping (state p1)
            then p1\<lparr>state := (state p1)\<lparr>falling := False, jumping := False\<rparr>, rotationX := 0\<rparr>
            else p1)
      else
        (let p1 = p\<lparr>timeSinceGrounded := timeSinceGrounded p + delta\<rparr>
         in if timeSinceGrounded p1 > GROUNDED_BUFFER_TIME \<and> \<not> jumping (state p1)
            then p1\<lparr>state := (state p1)\<lparr>falling := True\<rparr>\<rparr>
            else p1))"

definition leaveGround :: "bool \<Rightarrow> player \<Rightarrow> player" where
  "leaveGround justLeftGround p =
     (if justLeftGround then
        (let p1 = (if currentAnimation p = Some ''walk'' \<or> currentAnimation p = Some ''sprint''
                   then switchAnimation ''idle'' (15 / 100) p else p)
         in p1\<lparr>state := (state p1)\<lparr>walking := False\<rparr>\<rparr>)
      else p)"

definition jumpInput :: "bool \<Rightarrow> controls \<Rightarrow> player \<Rightarrow> player" where
  "jumpInput grounded c p =
     (if grounded \<and> jump c then
        (let p1 = switchAnimation ''jump'' (1 / 10) (p\<lparr>verticalVelocity := JUMP_FORCE\<rparr>)
         in p1\<lparr>state := \<lparr>idle = False, walking = False, sprinting = sprinting (state p1),
                          jumping = True, falling = False\<rparr>\<rparr>)
      else p)"

definition moving :: "controls \<Rightarrow> bool" where
  "moving c = (forward c \<or> backward c)"

definition dir :: "controls \<Rightarrow> vector3" where
  "dir c = vec 0 0 (if backward c then -1 else if forward c then 1 else 0)"

definition movementInput :: "real \<Rightarrow> controls \<Rightarrow> bool \<Rightarrow> player \<Rightarrow> player" where
  "movementInput delta c grounded p =
     (let p1 = (if left c then p\<lparr>rotationY := rotationY p + 3 * delta\<rparr> else p);
          p2 = (if right c then p1\<lparr>rotationY := rotationY p1 - 3 * delta\<rparr> else p1)
      in if moving c then
           (let baseSpeed = (if sprinting (state p2) then SPRINT_SPEED else WALK_SPEED);
                speedFactor = (if grounded then 1 else AIR_CONTROL_FACTOR);
                d = multiplyScalar
                      (applyQuaternion (rotationX p2) (rotationY p2) (normalize (dir c)))
                      (baseSpeed * speedFactor * delta)
            in p2\<lparr>position := vadd (position p2) d\<rparr>)
         else p2)"

text \<open>
  \<open>hits[0].point\<close> is read only when \<open>grounded\<close> holds, and then there is a hit; the
  branch for no hit is never taken.
\<close>

definition verticalPhysics :: "real \<Rightarrow> bool \<Rightarrow> hit list \<Rightarrow> player \<Rightarrow> player" where
  "verticalPhysics delta grounded hits p =
     (let p1 = p\<lparr>verticalVelocity := verticalVelocity p + GRAVITY * delta\<rparr>;
          p2 = (if verticalVelocity p1 < TERMINAL_VELOCITY
                then p1\<lparr>verticalVelocity := TERMINAL_VELOCITY\<rparr> else p1);
          p3 = (if grounded \<and> verticalVelocity p2 < 0 then
                  (case hits of
                     [] \<Rightarrow> p2
                   | h # _ \<Rightarrow>
                       p2\<lparr>verticalVelocity := 0,
                          position := (position p2)\<lparr>vy := vy (point h) + feetOffset p2\<rparr>\<rparr>)
                else p2)
      in p3\<lparr>position := (position p3)\<lparr>vy := vy (position p3) + verticalVelocity p3 * delta\<rparr>\<rparr>)"

definition animationStateMachine :: "real \<Rightarrow> bool \<Rightarrow> bool \<Rightarrow> player \<Rightarrow> player" where
  "animationStateMachine delta grounded mv p =
     (let p1 = (if \<not> grounded \<and> currentAnimation p = Some ''jump'' \<and>
                   timeSinceGrounded p > FALL_ANIM_DELAY \<and> verticalVelocity p < - (1 / 10)
                then switchAnimation ''idle'' (25 / 100) p else p)
      in if grounded then
           (if mv then
              (let desiredAnim = (if sprinting (state p1) then ''sprint'' else ''walk'');
                   p2 = (if currentAnimation p1 \<noteq> Some desiredAnim
                         then switchAnimation desiredAnim (15 / 100) p1 else p1);
                   p3 = (if \<not> sprinting (state p2) then
                           (let q = p2\<lparr>walkToSprintTime := walkToSprintTime p2 + delta\<rparr>
                            in if walkToSprintTime q > 1
                               then switchAnimation ''sprint'' (2 / 10)
                                      (q\<lparr>state := (state q)\<lparr>sprinting := True\<rparr>\<rparr>)
                               else q)
                         else p2)
               in p3\<lparr>state := (state p3)\<lparr>idle := False, walking := \<not> sprinting (state p3)\<rparr>\<rparr>)
            else
              (let p2 = (if currentAnimation p1 \<noteq> Some ''idle''
                         then switchAnimation ''idle'' (3 / 10) p1 else p1)
               in p2\<lparr>walkToSprintTime := 0,
                     state := (state p2)\<lparr>idle := True, walking := False, sprinting := False\<rparr>\<rparr>))
         else p1)"

text \<open>\<open>mixer.update(delta)\<close> advances the clock of the mixer.\<close>

definition housekeeping :: "real \<Rightarrow> player \<Rightarrow> player" where
  "housekeeping delta p =
     (if vy (position p) < -50 then reset p else p\<lparr>mixerTime := mixerTime p + delta\<rparr>)"

text \<open>
  The frame up to the housekeeping step: ground check, leaving the ground, jump input,
  movement input, vertical physics and the animation state machine, in the order of
  the source.
\<close>

definition simulate :: "real \<Rightarrow> controls \<Rightarrow> (vector3 \<Rightarrow> hit list) \<Rightarrow> player \<Rightarrow> player" where
  "simulate delta c raycast p =
     (let wasGrounded = (timeSinceGrounded p < GROUNDED_BUFFER_TIME);
          rayOrigin = (position p)\<lparr>vy := vy (position p) + RAYCAST_HEIGHT\<rparr>;
          hits = raycast rayOrigin;
          grounded = groundSensor hits (feetOffset p);
          p1 = groundCheck delta grounded p;
          justLeftGround = (\<not> grounded \<and> wasGrounded);
          p2 = leaveGround justLeftGround p1;
          p3 = jumpInput grounded c p2;
          p4 = movementInput delta c grounded p3;
          p5 = verticalPhysics delta grounded hits p4
      in animationStateMachine delta grounded (moving c) p5)"

definition update :: "real \<Rightarrow> controls \<Rightarrow> (vector3 \<Rightarrow> hit list) \<Rightarrow> player \<Rightarrow> player" where
  "update delta c raycast p =
     (if \<not> hasModel p \<or> \<not> hasMixer p then p
      else housekeeping delta (simulate delta c raycast p))"

text \<open>The ray result of a frame and the ground flag the update derives from it.\<close>

definition rayHits :: "(vector3 \<Rightarrow> hit list) \<Rightarrow> player \<Rightarrow> hit list" where
  "rayHits raycast p = raycast ((position p)\<lparr>vy := vy (position p) + RAYCAST_HEIGHT\<rparr>)"

definition groundedNow :: "(vector3 \<Rightarrow> hit list) \<Rightarrow> player \<Rightarrow> bool" where
  "groundedNow raycast p = groundSensor (rayHits raycast p) (feetOffset p)"

section \<open>The camera\<close>

definition CINEMATIC_RADIUS :: real where "CINEMATIC_RADIUS = 15"
definition START_POLAR_ANGLE :: real where "START_POLAR_ANGLE = pi / (28 / 10)"
definition END_POLAR_ANGLE :: real where "END_POLAR_ANGLE = pi / (45 / 10)"
definition FALL_TRANSITION_DURATION :: real where "FALL_TRANSITION_DURATION = 2"
definition CAMERA_SMOOTHING :: real where "CAMERA_SMOOTHING = 3 / 100"
definition CAMERA_DISTANCE :: real where "CAMERA_DISTANCE = 0"
definition CAMERA_ELEVATION :: real where "CAMERA_ELEVATION = 6"
definition CAMERA_LOOK_AT_HEIGHT :: real where "CAMERA_LOOK_AT_HEIGHT = 2"

datatype camera_mode = CINEMATIC_FALL | THIRD_PERSON

text \<open>
  The fields of a \<open>GameCamera\<close>. \<open>cameraPosition\<close> is \<open>camera.position\<close> and
  \<open>cameraLookAt\<close> the point last passed to \<open>camera.lookAt\<close>. The target of the camera
  is the model of the player: the camera reads its position and yaw and never writes
  them, so the operations below take them as arguments. The target is never \<open>null\<close>
  (the constructor calls \<open>target.add\<close>), so the branches of \<open>reset\<close> and \<open>update\<close>
  for a missing target are left out.
\<close>

record gameCamera =
  mode :: camera_mode
  mapCenter :: vector3
  cameraDistance :: real
  polar :: real
  azimuth :: real
  cinematicTimer :: real
  smoothedLookAt :: vector3
  cameraPosition :: vector3
  cameraLookAt :: vector3

definition newGameCamera :: "vector3 \<Rightarrow> vector3 \<Rightarrow> gameCamera" where
  "newGameCamera camPos center =
     \<lparr>mode = CINEMATIC_FALL, mapCenter = center, cameraDistance = CAMERA_DISTANCE,
      polar = pi / 3, azimuth = pi, cinematicTimer = 0, smoothedLookAt = vec 0 0 0,
      cameraPosition = camPos, cameraLookAt = vec 0 0 0\<rparr>"

definition checkLanding :: "bool \<Rightarrow> real \<Rightarrow> gameCamera \<Rightarrow> gameCamera" where
  "checkLanding playerIsGrounded targetRotationY cam =
     (if playerIsGrounded \<and> mode cam = CINEMATIC_FALL
      then cam\<lparr>mode := THIRD_PERSON, azimuth := targetRotationY + pi\<rparr>
      else cam)"

text \<open>
  The remainder operator \<open>%\<close> of JavaScript on numbers: the quotient is truncated
  toward zero, so the result has the sign of the dividend.
\<close>

definition trunc :: "real \<Rightarrow> int" where
  "trunc q = (if 0 \<le> q then \<lfloor>q\<rfloor> else \<lceil>q\<rceil>)"

definition jsmod :: "real \<Rightarrow> real \<Rightarrow> real" where
  "jsmod a n = a - n * of_int (trunc (a / n))"

definition shortestAngleDiff :: "real \<Rightarrow> real \<Rightarrow> real" where
  "shortestAngleDiff a b =
     (let diff = jsmod (b - a + pi) (pi * 2) - pi
      in if diff < - pi then diff + pi * 2 else diff)"

definition lerpAngle :: "real \<Rightarrow> real \<Rightarrow> real \<Rightarrow> real" where
  "lerpAngle a b t = a + shortestAngleDiff a b * t"

definition easeInOutCubic :: "real \<Rightarrow> real" where
  "easeInOutCubic t = (if t < 1 / 2 then 4 * t * t * t else 1 - (- 2 * t + 2) ^ 3 / 2)"

definition setFromSphericalCoords :: "real \<Rightarrow> real \<Rightarrow> real \<Rightarrow> vector3" where
  "setFromSphericalCoords radius phi theta =
     (let sinPhiRadius = sin phi * radius
      in \<lparr>vx = sinPhiRadius * sin theta, vy = cos phi * radius, vz = sinPhiRadius * cos theta\<rparr>)"

text \<open>\<open>Math.atan2(y, x)\<close>\<close>

definition atan2 :: "real \<Rightarrow> real \<Rightarrow> real" where
  "atan2 y x =
     (if 0 < x then arctan (y / x)
      else if x < 0 then (if 0 \<le> y then arctan (y / x) + pi else arctan (y / x) - pi)
      else if 0 < y then pi / 2
      else if y < 0 then - (pi / 2)
      else 0)"

definition cameraUpdate :: "real \<Rightarrow> bool \<Rightarrow> bool \<Rightarrow> vector3 \<Rightarrow> real \<Rightarrow> gameCamera \<Rightarrow> gameCamera" where
  "cameraUpdate delta forceImmediate mouseLook targetPosition targetRotationY cam =
     (let (cam1, goalPosition, goalLookAt) =
            (if mode cam = CINEMATIC_FALL then
               (let c1 = cam\<lparr>cinematicTimer := cinematicTimer cam + delta\<rparr>;
                    progress = min (cinematicTimer c1 / FALL_TRANSITION_DURATION) 1;
                    easeProgress = easeInOutCubic progress;
                    currentPolar = lerp START_POLAR_ANGLE END_POLAR_ANGLE easeProgress;
                    startAzimuth = targetRotationY + pi;
                    endAzimuth = atan2 (vx targetPosition - vx (mapCenter c1))
                                       (vz targetPosition - vz (mapCenter c1));
                    currentAzimuth = lerpAngle startAzimuth endAzimuth easeProgress;
                    offset = setFromSphericalCoords CINEMATIC_RADIUS currentPolar currentAzimuth
                in (c1, vadd targetPosition offset,
                    lerpVectors targetPosition (mapCenter c1) easeProgress))
             else
               (let c1 = (if \<not> mouseLook
                          then cam\<lparr>azimuth := lerpAngle (azimuth cam) (targetRotationY + pi) (1 / 10)\<rparr>
                          else cam);
                    offset = rotateY (azimuth c1)
                               (rotateX (polar c1) (vec 0 CAMERA_ELEVATION (cameraDistance c1)));
                    tp = vadd targetPosition offset;
                    tp' = (if vy tp < 1 / 2 then tp\<lparr>vy := 1 / 2\<rparr> else tp)
                in (c1, tp', vadd targetPosition (vec 0 CAMERA_LOOK_AT_HEIGHT 0))));
          cam2 = (if forceImmediate
                  then cam1\<lparr>cameraPosition := goalPosition, smoothedLookAt := goalLookAt\<rparr>
                  else cam1\<lparr>cameraPosition :=
                              lerpVectors (cameraPosition cam1) goalPosition CAMERA_SMOOTHING,
                            smoothedLookAt :=
                              lerpVectors (smoothedLookAt cam1) goalLookAt CAMERA_SMOOTHING\<rparr>)
      in cam2\<lparr>cameraLookAt := smoothedLookAt cam2\<rparr>)"

definition cameraReset :: "bool \<Rightarrow> vector3 \<Rightarrow> real \<Rightarrow> gameCamera \<Rightarrow> gameCamera" where
  "cameraReset mouseLook targetPosition targetRotationY cam =
     cameraUpdate 0 True mouseLook targetPosition targetRotationY
       (cam\<lparr>mode := CINEMATIC_FALL, azimuth := targetRotationY + pi, cinematicTimer := 0,
            smoothedLookAt := targetPosition\<rparr>)"

section \<open>The viewer: frame loop, restart and mouse look\<close>

text \<open>
  The module state of the viewer that the simulation touches: the player, the camera and
  the shared \<open>controlsState\<close>. The collision meshes and the raycaster are fixed once the
  map is loaded; they are the \<open>raycast\<close> argument.
\<close>

record viewer =
  player :: player
  gameCamera :: gameCamera
  controlsState :: controls

text \<open>One run of \<open>_animate\<close> with the clock reading \<open>dt\<close>.\<close>

definition animate :: "(vector3 \<Rightarrow> hit list) \<Rightarrow> real \<Rightarrow> viewer \<Rightarrow> viewer" where
  "animate raycast dt g =
     (let p = update dt (controlsState g) raycast (player g);
          cam1 = checkLanding (timeSinceGrounded p < 2 / 10) (rotationY p) (gameCamera g);
          cam2 = cameraUpdate dt False (mouseLookActive (controlsState g)) (position p)
                   (rotationY p) cam1
      in g\<lparr>player := p, gameCamera := cam2\<rparr>)"

text \<open>The \<open>restart\<close> entry of the controller API.\<close>

definition restart :: "viewer \<Rightarrow> viewer" where
  "restart g =
     (let p = reset (player g);
          cam = cameraReset (mouseLookActive (controlsState g)) (position p) (rotationY p)
                  (gameCamera g)
      in g\<lparr>player := p, gameCamera := cam\<rparr>)"

definition clamp :: "real \<Rightarrow> real \<Rightarrow> real \<Rightarrow> real" where
  "clamp v lo hi = max lo (min hi v)"

text \<open>The mouse-move callback installed by \<open>createGameViewer\<close>.\<close>

definition onMouseMove :: "real \<Rightarrow> real \<Rightarrow> viewer \<Rightarrow> viewer" where
  "onMouseMove movementX movementY g =
     (if mouseLookActive (controlsState g) then
        g\<lparr>gameCamera := (gameCamera g)
            \<lparr>azimuth := azimuth (gameCamera g) - movementX * (2 / 1000),
             polar := clamp (polar (gameCamera g) - movementY * (2 / 1000)) (6 / 10)
                        (pi / 2 - 1 / 10)\<rparr>\<rparr>
      else g)"

text \<open>
  What happens to a running viewer: the input handlers store a new snapshot of the
  controls, the mouse moves, a frame is drawn, or the host calls \<open>restart\<close>.
\<close>

datatype event = Input controls | MouseMove real real | Frame real | Restart

fun step :: "(vector3 \<Rightarrow> hit list) \<Rightarrow> viewer \<Rightarrow> event \<Rightarrow> viewer" where
  "step raycast g (Input c) = g\<lparr>controlsState := c\<rparr>"
| "step raycast g (MouseMove dx dy) = onMouseMove dx dy g"
| "step raycast g (Frame dt) = animate raycast dt g"
| "step raycast g Restart = restart g"

definition run :: "(vector3 \<Rightarrow> hit list) \<Rightarrow> viewer \<Rightarrow> event list \<Rightarrow> viewer" where
  "run raycast g es = foldl (step raycast) g es"

section \<open>Traces\<close>

text \<open>
  Two properties of a trace of events, both computed along the run. \<open>landed\<close>: some
  frame of the trace ends with the debounced ground signal
  \<open>timeSinceGrounded < GROUNDED_BUFFER_TIME\<close> true. \<open>contactFree\<close>: no frame of the
  trace has ground contact (the ray of the frame finds no ground within reach of the
  feet), and every time step is at least 0.
\<close>

fun landed :: "(vector3 \<Rightarrow> hit list) \<Rightarrow> viewer \<Rightarrow> event list \<Rightarrow> bool" where
  "landed raycast g [] = False"
| "landed raycast g (e # es) =
     ((case e of
         Frame dt \<Rightarrow> timeSinceGrounded (player (animate raycast dt g)) < GROUNDED_BUFFER_TIME
       | _ \<Rightarrow> False)
      \<or> landed raycast (step raycast g e) es)"

fun contactFree :: "(vector3 \<Rightarrow> hit list) \<Rightarrow> viewer \<Rightarrow> event list \<Rightarrow> bool" where
  "contactFree raycast g [] = True"
| "contactFree raycast g (e # es) =
     ((case e of
         Frame dt \<Rightarrow> 0 \<le> dt \<and> \<not> groundedNow raycast (player g)
       | _ \<Rightarrow> True)
      \<and> contactFree raycast (step raycast g e) es)"

section \<open>Loop configuration and states without the console\<close>

text \<open>
  \<open>oneShotConfig\<close>: of the loaded actions, the one stored under \<open>jump\<close> plays once
  and holds its last frame, and every other one repeats and does not clamp.
  \<open>withoutConsole\<close> forgets what has been printed, which is output and no part of the
  state of the player or the camera.
\<close>

definition oneShotConfig :: "(string \<times> action) list \<Rightarrow> bool" where
  "oneShotConfig as =
     list_all (\<lambda>(k, a). if k = ''jump'' then loop a = LoopOnce \<and> clampWhenFinished a
                          else loop a = LoopRepeat \<and> \<not> clampWhenFinished a) as"

definition withoutConsole :: "viewer \<Rightarrow> viewer" where
  "withoutConsole g = g\<lparr>player := (player g)\<lparr>console := []\<rparr>\<rparr>"

text \<open>\<open>repeating\<close>: every loaded action repeats and does not clamp, as three.js creates it.\<close>

definition repeating :: "(string \<times> action) list \<Rightarrow> bool" where
  "repeating as = list_all (\<lambda>(k, a). loop a = LoopRepeat \<and> \<not> clampWhenFinished a) as"



section \<open>A small world\<close>

text \<open>
  Concrete inputs for the statements below: a world whose ground is the plane of height
  0, a world with nothing to stand on, a character with the usual four clips and a
  bounding box reaching one unit below its origin, and a few input snapshots.
\<close>

definition flatWorld :: "vector3 \<Rightarrow> hit list" where
  "flatWorld origin =
     (if 0 \<le> vy origin then [\<lparr>distance = vy origin, point = origin\<lparr>vy := 0\<rparr>\<rparr>] else [])"

definition emptyWorld :: "vector3 \<Rightarrow> hit list" where
  "emptyWorld origin = []"

definition exampleClips :: "string list" where
  "exampleClips = [''Armature|Idle'', ''Armature|Walk'', ''Armature|Sprint'', ''Armature|Jump'',
     ''Armature|Grounded'']"

definition loadedPlayer :: player where
  "loadedPlayer = load (-1) (vec 0 0 0) 0 exampleClips newPlayer"

definition standingPlayer :: player where
  "standingPlayer =
     (switchAnimation ''idle'' (3 / 10) loadedPlayer)
       \<lparr>position := vec 0 1 0, verticalVelocity := 0, timeSinceGrounded := 0,
        state := \<lparr>idle = True, walking = False, sprinting = False, jumping = False,
                   falling = False\<rparr>\<rparr>"

definition noInput :: controls where
  "noInput = \<lparr>forward = False, backward = False, left = False, right = False, jump = False,
     mouseLookActive = False\<rparr>"

definition fallingPlayer :: player where
  "fallingPlayer =
     loadedPlayer\<lparr>position := vec 0 (- (499 / 10)) 0, verticalVelocity := -45,
       timeSinceGrounded := 5\<rparr>"

definition spawnedViewer :: viewer where
  "spawnedViewer =
     \<lparr>player = loadedPlayer, gameCamera = newGameCamera (vec 0 0 0) (vec 0 0 0),
      controlsState = noInput\<rparr>"

definition touchdownViewer :: viewer where
  "touchdownViewer =
     \<lparr>player = loadedPlayer\<lparr>position := vec 0 1 0, verticalVelocity := -45,
                  timeSinceGrounded := 5\<rparr>,
      gameCamera = newGameCamera (vec 0 0 0) (vec 0 0 0),
      controlsState = noInput\<rparr>"

text \<open>
  \<open>sprintJumpPlayer\<close> is in the air after a jump out of a sprint, about to touch the
  ground: the placeholder clip plays and \<open>sprinting\<close> is still set.
\<close>

definition sprintJumpPlayer :: player where
  "sprintJumpPlayer =
     (switchAnimation ''idle'' (15 / 100) loadedPlayer)
       \<lparr>position := vec 0 1 0, verticalVelocity := -5, timeSinceGrounded := 1 / 2,
        walkToSprintTime := 101 / 100,
        state := \<lparr>idle = False, walking = False, sprinting = True, jumping = True,
                   falling = False\<rparr>\<rparr>"




text \<open>
  \<open>deepWorld\<close> has its ground just below the height of the void fail-safe, and
  \<open>deepLandingPlayer\<close> is about to touch it. \<open>jumpOnlyPlayer\<close> is a character whose
  asset has a jump clip and nothing else, about to touch flat ground.
\<close>

definition deepWorld :: "vector3 \<Rightarrow> hit list" where
  "deepWorld origin =
     (if - (1021 / 20) \<le> vy origin
      then [\<lparr>distance = vy origin + 1021 / 20, point = origin\<lparr>vy := - (1021 / 20)\<rparr>\<rparr>]
      else [])"

definition deepLandingPlayer :: player where
  "deepLandingPlayer =
     loadedPlayer\<lparr>position := vec 0 (- (2499 / 50)) 0, verticalVelocity := -45,
       timeSinceGrounded := 5\<rparr>"

definition jumpOnlyPlayer :: player where
  "jumpOnlyPlayer =
     (load (-1) (vec 0 0 0) 0 [''Armature|Jump''] newPlayer)
       \<lparr>position := vec 0 1 0, verticalVelocity := -45, timeSinceGrounded := 5\<rparr>"

section \<open>Properties\<close>

lemmas player_consts =
  GRAVITY_def JUMP_FORCE_def RAYCAST_HEIGHT_def GROUNDED_BUFFER_TIME_def GROUND_TOLERANCE_def
  SPAWN_ALTITUDE_def SPAWN_INITIAL_VELOCITY_def WALK_SPEED_def SPRINT_SPEED_def
  AIR_CONTROL_FACTOR_def TERMINAL_VELOCITY_def FALL_ANIM_DELAY_def

subsection \<open>What each step of the update leaves alone\<close>

lemma switchAnimation_fields [simp]:
  "hasModel (switchAnimation n f p) = hasModel p"
  "hasMixer (switchAnimation n f p) = hasMixer p"
  "position (switchAnimation n f p) = position p"
  "rotationX (switchAnimation n f p) = rotationX p"
  "rotationY (switchAnimation n f p) = rotationY p"
  "spawnPoint (switchAnimation n f p) = spawnPoint p"
  "state (switchAnimation n f p) = state p"
  "verticalVelocity (switchAnimation n f p) = verticalVelocity p"
  "walkToSprintTime (switchAnimation n f p) = walkToSprintTime p"
  "timeSinceGrounded (switchAnimation n f p) = timeSinceGrounded p"
  "feetOffset (switchAnimation n f p) = feetOffset p"
  "mixerTime (switchAnimation n f p) = mixerTime p"
  by (simp_all add: switchAnimation_def Let_def split: option.split)

lemma groundCheck_fields [simp]:
  "hasModel (groundCheck d g p) = hasModel p"
  "hasMixer (groundCheck d g p) = hasMixer p"
  "feetOffset (groundCheck d g p) = feetOffset p"
  "spawnPoint (groundCheck d g p) = spawnPoint p"
  "position (groundCheck d g p) = position p"
  "rotationY (groundCheck d g p) = rotationY p"
  "verticalVelocity (groundCheck d g p) = verticalVelocity p"
  "walkToSprintTime (groundCheck d g p) = walkToSprintTime p"
  "currentAnimation (groundCheck d g p) = currentAnimation p"
  "animations (groundCheck d g p) = animations p"
  "console (groundCheck d g p) = console p"
  "mixerTime (groundCheck d g p) = mixerTime p"
  by (simp_all add: groundCheck_def Let_def)

lemma leaveGround_fields [simp]:
  "hasModel (leaveGround j p) = hasModel p"
  "hasMixer (leaveGround j p) = hasMixer p"
  "feetOffset (leaveGround j p) = feetOffset p"
  "spawnPoint (leaveGround j p) = spawnPoint p"
  "position (leaveGround j p) = position p"
  "rotationX (leaveGround j p) = rotationX p"
  "rotationY (leaveGround j p) = rotationY p"
  "verticalVelocity (leaveGround j p) = verticalVelocity p"
  "walkToSprintTime (leaveGround j p) = walkToSprintTime p"
  "timeSinceGrounded (leaveGround j p) = timeSinceGrounded p"
  "mixerTime (leaveGround j p) = mixerTime p"
  by (simp_all add: leaveGround_def Let_def)

lemma jumpInput_fields [simp]:
  "hasModel (jumpInput g c p) = hasModel p"
  "hasMixer (jumpInput g c p) = hasMixer p"
  "feetOffset (jumpInput g c p) = feetOffset p"
  "spawnPoint (jumpInput g c p) = spawnPoint p"
  "position (jumpInput g c p) = position p"
  "rotationX (jumpInput g c p) = rotationX p"
  "rotationY (jumpInput g c p) = rotationY p"
  "walkToSprintTime (jumpInput g c p) = walkToSprintTime p"
  "timeSinceGrounded (jumpInput g c p) = timeSinceGrounded p"
  "mixerTime (jumpInput g c p) = mixerTime p"
  by (simp_all add: jumpInput_def Let_def)

lemma movementInput_fields [simp]:
  "hasModel (movementInput d c g p) = hasModel p"
  "hasMixer (movementInput d c g p) = hasMixer p"
  "feetOffset (movementInput d c g p) = feetOffset p"
  "spawnPoint (movementInput d c g p) = spawnPoint p"
  "rotationX (movementInput d c g p) = rotationX p"
  "verticalVelocity (movementInput d c g p) = verticalVelocity p"
  "walkToSprintTime (movementInput d c g p) = walkToSprintTime p"
  "timeSinceGrounded (movementInput d c g p) = timeSinceGrounded p"
  "state (movementInput d c g p) = state p"
  "currentAnimation (movementInput d c g p) = currentAnimation p"
  "animations (movementInput d c g p) = animations p"
  "console (movementInput d c g p) = console p"
  "mixerTime (movementInput d c g p) = mixerTime p"
  by (simp_all add: movementInput_def Let_def)

lemma verticalPhysics_fields [simp]:
  "hasModel (verticalPhysics d g hs p) = hasModel p"
  "hasMixer (verticalPhysics d g hs p) = hasMixer p"
  "feetOffset (verticalPhysics d g hs p) = feetOffset p"
  "spawnPoint (verticalPhysics d g hs p) = spawnPoint p"
  "rotationX (verticalPhysics d g hs p) = rotationX p"
  "rotationY (verticalPhysics d g hs p) = rotationY p"
  "walkToSprintTime (verticalPhysics d g hs p) = walkToSprintTime p"
  "timeSinceGrounded (verticalPhysics d g hs p) = timeSinceGrounded p"
  "state (verticalPhysics d g hs p) = state p"
  "currentAnimation (verticalPhysics d g hs p) = currentAnimation p"
  "animations (verticalPhysics d g hs p) = animations p"
  "console (verticalPhysics d g hs p) = console p"
  "mixerTime (verticalPhysics d g hs p) = mixerTime p"
  by (simp_all add: verticalPhysics_def Let_def split: list.split)

lemma animationStateMachine_fields [simp]:
  "hasModel (animationStateMachine d g m p) = hasModel p"
  "hasMixer (animationStateMachine d g m p) = hasMixer p"
  "feetOffset (animationStateMachine d g m p) = feetOffset p"
  "spawnPoint (animationStateMachine d g m p) = spawnPoint p"
  "position (animationStateMachine d g m p) = position p"
  "rotationX (animationStateMachine d g m p) = rotationX p"
  "rotationY (animationStateMachine d g m p) = rotationY p"
  "verticalVelocity (animationStateMachine d g m p) = verticalVelocity p"
  "timeSinceGrounded (animationStateMachine d g m p) = timeSinceGrounded p"
  "mixerTime (animationStateMachine d g m p) = mixerTime p"
  by (simp_all add: animationStateMachine_def Let_def)

lemma simulate_fields [simp]:
  "hasModel (simulate d c rc p) = hasModel p"
  "hasMixer (simulate d c rc p) = hasMixer p"
  "feetOffset (simulate d c rc p) = feetOffset p"
  "spawnPoint (simulate d c rc p) = spawnPoint p"
  "mixerTime (simulate d c rc p) = mixerTime p"
  by (simp_all add: simulate_def Let_def)

lemma reset_fields:
  "hasModel (reset p) = hasModel p"
  "hasMixer (reset p) = hasMixer p"
  "feetOffset (reset p) = feetOffset p"
  "spawnPoint (reset p) = spawnPoint p"
  "walkToSprintTime (reset p) = walkToSprintTime p"
  "mixerTime (reset p) = mixerTime p"
  by (simp_all add: reset_def)

lemma reset_values:
  assumes "hasModel p"
  shows "position (reset p) = spawnPoint p"
    and "rotationX (reset p) = 0"
    and "rotationY (reset p) = pi"
    and "verticalVelocity (reset p) = SPAWN_INITIAL_VELOCITY"
    and "timeSinceGrounded (reset p) = GROUNDED_BUFFER_TIME + 1 / 100"
    and "state (reset p) =
           \<lparr>idle = False, walking = False, sprinting = False, jumping = True, falling = True\<rparr>"
  using assms by (simp_all add: reset_def)

subsection \<open>Vertical velocity\<close>

lemma verticalPhysics_vv:
  "verticalVelocity (verticalPhysics d g hs p) =
     (let v = max TERMINAL_VELOCITY (verticalVelocity p + GRAVITY * d)
      in if g \<and> v < 0 \<and> hs \<noteq> [] then 0 else v)"
  by (simp add: verticalPhysics_def Let_def max_def split: list.split)

lemma jumpInput_vv:
  "verticalVelocity (jumpInput g c p) = (if g \<and> jump c then JUMP_FORCE else verticalVelocity p)"
  by (simp add: jumpInput_def Let_def)

lemma simulate_vv:
  "verticalVelocity (simulate d c rc p) =
     (let v = max TERMINAL_VELOCITY
                ((if groundedNow rc p \<and> jump c then JUMP_FORCE else verticalVelocity p) +
                 GRAVITY * d)
      in if groundedNow rc p \<and> v < 0 then 0 else v)"
  by (auto simp add: simulate_def Let_def groundedNow_def rayHits_def verticalPhysics_vv
      jumpInput_vv groundSensor_def)

lemma simulate_tsg:
  "timeSinceGrounded (simulate d c rc p) =
     (if groundedNow rc p then 0 else timeSinceGrounded p + d)"
  by (simp add: simulate_def Let_def groundedNow_def rayHits_def groundCheck_def)

subsection \<open>The example character\<close>

lemma exampleClips_loaded:
  "fold addClip exampleClips [] =
     [(''idle'', clipAction), (''walk'', clipAction), (''sprint'', clipAction),
      (''jump'', clipAction)]"
  by (simp add: exampleClips_def addClip_def clipKey_def toLowerCase_def toLowerChar_def
      assign_def)

lemma loadedPlayer_fields:
  "hasModel loadedPlayer"
  "hasMixer loadedPlayer"
  "feetOffset loadedPlayer = 1"
  "spawnPoint loadedPlayer = vec 0 240 0"
  "position loadedPlayer = vec 0 240 0"
  "currentAnimation loadedPlayer = Some ''jump''"
  "map fst (animations loadedPlayer) = [''idle'', ''walk'', ''sprint'', ''jump'']"
  by (simp_all add: loadedPlayer_def load_def Let_def exampleClips_loaded newPlayer_def
      switchAnimation_def updateAction_def animationKey_def vec_def SPAWN_ALTITUDE_def)

lemma standingPlayer_fields:
  "hasModel standingPlayer"
  "hasMixer standingPlayer"
  "feetOffset standingPlayer = 1"
  "position standingPlayer = vec 0 1 0"
  "verticalVelocity standingPlayer = 0"
  "timeSinceGrounded standingPlayer = 0"
  by (simp_all add: standingPlayer_def loadedPlayer_fields)

lemma standingPlayer_grounded: "groundedNow flatWorld standingPlayer"
  by (simp add: groundedNow_def rayHits_def groundSensor_def flatWorld_def vec_def
      standingPlayer_fields player_consts)

text \<open>
  C3. After every update of a loaded player the vertical velocity is at least the
  terminal velocity, and in a frame that triggers a jump (ground contact and jump input,
  with a time step that is not negative) it is at most the jump force.
\<close>

theorem update_verticalVelocity_bounds:
  assumes "hasModel p" and "hasMixer p"
  shows "TERMINAL_VELOCITY \<le> verticalVelocity (update delta c raycast p) \<and>
         (groundedNow raycast p \<and> jump c \<and> 0 \<le> delta \<longrightarrow>
            verticalVelocity (update delta c raycast p) \<le> JUMP_FORCE)"
  using assms
  by (simp add: update_def housekeeping_def reset_values simulate_vv Let_def player_consts
      max_def)

theorem update_verticalVelocity_bounds_witness:
  "hasModel standingPlayer \<and> hasMixer standingPlayer \<and>
   groundedNow flatWorld standingPlayer \<and> jump (noInput\<lparr>jump := True\<rparr>) \<and>
   TERMINAL_VELOCITY \<le>
     verticalVelocity (update (1 / 60) (noInput\<lparr>jump := True\<rparr>) flatWorld standingPlayer) \<and>
   verticalVelocity (update (1 / 60) (noInput\<lparr>jump := True\<rparr>) flatWorld standingPlayer)
     \<le> JUMP_FORCE"
  using update_verticalVelocity_bounds [of standingPlayer "1 / 60" "noInput\<lparr>jump := True\<rparr>" flatWorld]
  by (simp add: standingPlayer_fields standingPlayer_grounded)

subsection \<open>Time since the last ground contact\<close>

lemma update_tsg:
  "timeSinceGrounded (update d c rc p) =
     (if \<not> hasModel p \<or> \<not> hasMixer p then timeSinceGrounded p
      else if vy (position (simulate d c rc p)) < -50 then GROUNDED_BUFFER_TIME + 1 / 100
      else if groundedNow rc p then 0 else timeSinceGrounded p + d)"
  by (simp add: update_def housekeeping_def reset_values simulate_tsg)

lemma load_tsg: "timeSinceGrounded (load b c w ns p) = timeSinceGrounded p"
  by (simp add: load_def Let_def)

subsection \<open>The camera mode\<close>

lemma cameraUpdate_mode [simp]: "mode (cameraUpdate d f m tp ty cam) = mode cam"
  by (simp add: cameraUpdate_def Let_def split: prod.split)

lemma cameraReset_mode [simp]: "mode (cameraReset m tp ty cam) = CINEMATIC_FALL"
  by (simp add: cameraReset_def)

lemma animate_mode:
  "mode (gameCamera (animate rc dt g)) =
     (if mode (gameCamera g) = THIRD_PERSON \<or>
         timeSinceGrounded (player (animate rc dt g)) < GROUNDED_BUFFER_TIME
      then THIRD_PERSON else CINEMATIC_FALL)"
  by (cases "mode (gameCamera g)")
     (simp_all add: animate_def Let_def checkLanding_def GROUNDED_BUFFER_TIME_def)

lemma step_mode:
  "e \<noteq> Restart \<Longrightarrow>
   mode (gameCamera (step rc g e)) =
     (if mode (gameCamera g) = THIRD_PERSON \<or>
         (case e of Frame dt \<Rightarrow>
            timeSinceGrounded (player (animate rc dt g)) < GROUNDED_BUFFER_TIME
          | _ \<Rightarrow> False)
      then THIRD_PERSON else CINEMATIC_FALL)"
  by (cases e; cases "mode (gameCamera g)") (simp_all add: animate_mode onMouseMove_def)

text \<open>
  C1. Along any trace without a restart, the camera is in third-person mode after the
  trace exactly if it was so before or some frame of the trace ended with the debounced
  ground signal true: the switch happens at the first such frame and is never undone.
\<close>

theorem camera_mode_one_way:
  assumes "Restart \<notin> set es"
  shows "mode (gameCamera (run raycast g es)) =
           (if mode (gameCamera g) = THIRD_PERSON \<or> landed raycast g es
            then THIRD_PERSON else CINEMATIC_FALL)"
  using assms
proof (induction es arbitrary: g)
  case Nil
  show ?case by (cases "mode (gameCamera g)") (simp_all add: run_def)
next
  case (Cons e es)
  then have e: "e \<noteq> Restart" and es: "Restart \<notin> set es" by auto
  have "run raycast g (e # es) = run raycast (step raycast g e) es"
    by (simp add: run_def)
  then show ?case
    using Cons.IH [OF es, of "step raycast g e"] step_mode [OF e, of raycast g]
    by (cases e) (simp_all split: if_splits)
qed


lemma restart_mode: "mode (gameCamera (restart g)) = CINEMATIC_FALL"
  by (simp add: restart_def Let_def)

subsection \<open>Position after the vertical physics\<close>

lemma verticalPhysics_position:
  "position (verticalPhysics d g hs p) =
     (let v = max TERMINAL_VELOCITY (verticalVelocity p + GRAVITY * d)
      in if g \<and> v < 0 \<and> hs \<noteq> []
         then (position p)\<lparr>vy := vy (point (hd hs)) + feetOffset p\<rparr>
         else (position p)\<lparr>vy := vy (position p) + v * d\<rparr>)"
  by (simp add: verticalPhysics_def Let_def max_def split: list.split)

lemma groundedNow_hits: "groundedNow rc p \<Longrightarrow> rayHits rc p \<noteq> []"
  by (auto simp add: groundedNow_def groundSensor_def)

lemma simulate_landing_y:
  assumes "groundedNow rc p"
    and "max TERMINAL_VELOCITY
           ((if jump c then JUMP_FORCE else verticalVelocity p) + GRAVITY * d) < 0"
  shows "vy (position (simulate d c rc p)) = vy (point (hd (rayHits rc p))) + feetOffset p"
  using assms groundedNow_hits [OF assms(1)]
  by (auto simp add: simulate_def Let_def verticalPhysics_position jumpInput_vv groundedNow_def
      rayHits_def split: if_splits)

lemma loadedPlayer_moved_fields:
  "hasModel (loadedPlayer\<lparr>position := q, verticalVelocity := v, timeSinceGrounded := t\<rparr>)"
  "hasMixer (loadedPlayer\<lparr>position := q, verticalVelocity := v, timeSinceGrounded := t\<rparr>)"
  "feetOffset (loadedPlayer\<lparr>position := q, verticalVelocity := v, timeSinceGrounded := t\<rparr>) = 1"
  "spawnPoint (loadedPlayer\<lparr>position := q, verticalVelocity := v, timeSinceGrounded := t\<rparr>) =
     vec 0 240 0"
  by (simp_all add: loadedPlayer_fields)

lemma touchdown_grounded: "groundedNow flatWorld (player touchdownViewer)"
  by (simp add: touchdownViewer_def groundedNow_def rayHits_def groundSensor_def flatWorld_def
      vec_def loadedPlayer_fields player_consts)

lemma touchdown_first_frame:
  "timeSinceGrounded (player (animate flatWorld (1 / 60) touchdownViewer)) = 0"
proof -
  let ?p = "player touchdownViewer"
  have y: "vy (position (simulate (1 / 60) noInput flatWorld ?p)) = 1"
    using simulate_landing_y [OF touchdown_grounded, of noInput "1 / 60"]
    by (simp add: touchdownViewer_def noInput_def player_consts rayHits_def flatWorld_def
        vec_def loadedPlayer_fields)
  show ?thesis
    using touchdown_grounded y
    by (simp add: animate_def Let_def update_tsg)
       (simp add: touchdownViewer_def loadedPlayer_fields)
qed

theorem camera_mode_one_way_witness:
  "Restart \<notin> set [Frame (1 / 60), MouseMove 3 4, Frame (1 / 60)] \<and>
   mode (gameCamera touchdownViewer) = CINEMATIC_FALL \<and>
   landed flatWorld touchdownViewer [Frame (1 / 60), MouseMove 3 4, Frame (1 / 60)] \<and>
   mode (gameCamera (run flatWorld touchdownViewer [Frame (1 / 60), MouseMove 3 4, Frame (1 / 60)]))
     = THIRD_PERSON"
proof -
  have r: "Restart \<notin> set [Frame (1 / 60), MouseMove 3 4, Frame (1 / 60)]" by simp
  have l: "landed flatWorld touchdownViewer [Frame (1 / 60), MouseMove 3 4, Frame (1 / 60)]"
    by (simp add: touchdown_first_frame GROUNDED_BUFFER_TIME_def)
  have m: "mode (gameCamera touchdownViewer) = CINEMATIC_FALL"
    by (simp add: touchdownViewer_def newGameCamera_def)
  show ?thesis
    using camera_mode_one_way [OF r, of flatWorld touchdownViewer] r l m by simp
qed

subsection \<open>Before the first ground contact\<close>

lemma update_airborne_tsg:
  assumes "GROUNDED_BUFFER_TIME < timeSinceGrounded p" and "0 \<le> d" and "\<not> groundedNow rc p"
  shows "GROUNDED_BUFFER_TIME < timeSinceGrounded (update d c rc p)"
  using assms by (simp add: update_tsg)

lemma reset_tsg:
  "GROUNDED_BUFFER_TIME < timeSinceGrounded p \<Longrightarrow> GROUNDED_BUFFER_TIME < timeSinceGrounded (reset p)"
  by (cases "hasModel p") (simp_all add: reset_values, simp add: reset_def)

lemma step_contactFree:
  assumes "GROUNDED_BUFFER_TIME < timeSinceGrounded (player g)"
    and "mode (gameCamera g) = CINEMATIC_FALL"
    and "contactFree rc g [e]"
  shows "GROUNDED_BUFFER_TIME < timeSinceGrounded (player (step rc g e)) \<and>
         mode (gameCamera (step rc g e)) = CINEMATIC_FALL"
proof (cases e)
  case (Input c)
  with assms show ?thesis by simp
next
  case (MouseMove dx dy)
  with assms show ?thesis by (simp add: onMouseMove_def)
next
  case (Frame dt)
  with assms have d: "0 \<le> dt" and a: "\<not> groundedNow rc (player g)" by simp_all
  have t: "GROUNDED_BUFFER_TIME < timeSinceGrounded (player (animate rc dt g))"
    using update_airborne_tsg [OF assms(1) d a] by (simp add: animate_def Let_def)
  with assms(2) Frame show ?thesis by (simp add: animate_mode)
next
  case Restart
  with assms(1) show ?thesis by (simp add: restart_def Let_def reset_tsg)
qed

text \<open>
  C9. A new player and a player after \<open>reset\<close> have \<open>timeSinceGrounded\<close> above the
  buffer time, loading does not change that, and from such a state the camera stays in
  the cinematic fall through every trace of events in which no frame has ground contact.
\<close>

theorem no_landing_before_contact:
  "GROUNDED_BUFFER_TIME < timeSinceGrounded newPlayer \<and>
   GROUNDED_BUFFER_TIME < timeSinceGrounded (load bboxMinY center worldMaxY clipNames newPlayer) \<and>
   (hasModel p \<longrightarrow> GROUNDED_BUFFER_TIME < timeSinceGrounded (reset p)) \<and>
   (GROUNDED_BUFFER_TIME < timeSinceGrounded (player g) \<and>
    mode (gameCamera g) = CINEMATIC_FALL \<and> contactFree raycast g es \<longrightarrow>
      mode (gameCamera (run raycast g es)) = CINEMATIC_FALL \<and>
      \<not> timeSinceGrounded (player (run raycast g es)) < GROUNDED_BUFFER_TIME)"
proof -
  have new: "GROUNDED_BUFFER_TIME < timeSinceGrounded newPlayer"
    by (simp add: newPlayer_def)
  have run: "mode (gameCamera (run raycast g es)) = CINEMATIC_FALL \<and>
             GROUNDED_BUFFER_TIME < timeSinceGrounded (player (run raycast g es))"
    if "GROUNDED_BUFFER_TIME < timeSinceGrounded (player g)"
      and "mode (gameCamera g) = CINEMATIC_FALL" and "contactFree raycast g es"
    using that
  proof (induction es arbitrary: g)
    case Nil
    then show ?case by (simp add: run_def)
  next
    case (Cons e es)
    from Cons.prems(3) have e: "contactFree raycast g [e]"
      and es: "contactFree raycast (step raycast g e) es" by simp_all
    from step_contactFree [OF Cons.prems(1,2) e] Cons.IH [OF _ _ es]
    show ?case by (simp add: run_def)
  qed
  from new run show ?thesis
    by (auto simp add: load_tsg reset_values)
qed

theorem no_landing_before_contact_witness:
  "hasModel loadedPlayer \<and>
   GROUNDED_BUFFER_TIME < timeSinceGrounded (reset loadedPlayer) \<and>
   GROUNDED_BUFFER_TIME < timeSinceGrounded (player spawnedViewer) \<and>
   mode (gameCamera spawnedViewer) = CINEMATIC_FALL \<and>
   contactFree flatWorld spawnedViewer [Frame (1 / 60), Restart, Frame (1 / 60)] \<and>
   mode (gameCamera (run flatWorld spawnedViewer [Frame (1 / 60), Restart, Frame (1 / 60)])) =
     CINEMATIC_FALL"
proof -
  have t: "GROUNDED_BUFFER_TIME < timeSinceGrounded (player spawnedViewer)"
    by (simp add: spawnedViewer_def loadedPlayer_def load_tsg newPlayer_def)
  have m: "mode (gameCamera spawnedViewer) = CINEMATIC_FALL"
    by (simp add: spawnedViewer_def newGameCamera_def)
  have a: "\<not> groundedNow flatWorld (player spawnedViewer)"
    by (simp add: spawnedViewer_def groundedNow_def rayHits_def groundSensor_def flatWorld_def
        vec_def loadedPlayer_fields player_consts)
  have b: "\<not> groundedNow flatWorld (player (restart (animate flatWorld (1 / 60) spawnedViewer)))"
    by (simp add: restart_def animate_def Let_def reset_values reset_fields update_def
        housekeeping_def groundedNow_def rayHits_def groundSensor_def flatWorld_def
        spawnedViewer_def vec_def loadedPlayer_fields player_consts)
  have c: "contactFree flatWorld spawnedViewer [Frame (1 / 60), Restart, Frame (1 / 60)]"
    using a b by simp
  show ?thesis
    using no_landing_before_contact [where p = loadedPlayer and g = spawnedViewer
        and raycast = flatWorld and es = "[Frame (1 / 60), Restart, Frame (1 / 60)]"] t m c
    by (simp add: loadedPlayer_fields)
qed

subsection \<open>Falling into the void\<close>

lemma fallingPlayer_fields:
  "hasModel fallingPlayer"
  "hasMixer fallingPlayer"
  "feetOffset fallingPlayer = 1"
  "spawnPoint fallingPlayer = vec 0 240 0"
  "position fallingPlayer = vec 0 (- (499 / 10)) 0"
  "verticalVelocity fallingPlayer = -45"
  by (simp_all add: fallingPlayer_def loadedPlayer_fields)

lemma fallingPlayer_airborne: "\<not> groundedNow emptyWorld fallingPlayer"
  by (simp add: groundedNow_def rayHits_def emptyWorld_def groundSensor_def)

lemma simulate_airborne_y:
  assumes "\<not> groundedNow rc p" and "\<not> moving c"
  shows "vy (position (simulate d c rc p)) =
           vy (position p) + max TERMINAL_VELOCITY (verticalVelocity p + GRAVITY * d) * d"
  using assms
  by (simp add: simulate_def Let_def verticalPhysics_position jumpInput_vv groundedNow_def
      rayHits_def movementInput_def)

lemma fallingPlayer_below:
  "vy (position (simulate (1 / 60) noInput emptyWorld fallingPlayer)) < -50"
  using simulate_airborne_y [OF fallingPlayer_airborne, of noInput "1 / 60"]
  by (simp add: moving_def noInput_def fallingPlayer_fields vec_def player_consts)

text \<open>
  C7, as the code has it. When the frame leaves a loaded character below height -50, the
  update ends in \<open>reset\<close>: the character is back at the spawn point, upright and facing
  the spawn direction, its vertical velocity is the spawn velocity -1, the time since
  the last ground contact is above the buffer time and the flags are those of a spawn:
  \<open>idle\<close>, \<open>walking\<close> and \<open>sprinting\<close> cleared, \<open>jumping\<close> and \<open>falling\<close> set.
\<close>

theorem void_reset:
  assumes "hasModel p" and "hasMixer p"
    and "vy (position (simulate delta c raycast p)) < -50"
  shows "update delta c raycast p = reset (simulate delta c raycast p) \<and>
         position (update delta c raycast p) = spawnPoint p \<and>
         rotationX (update delta c raycast p) = 0 \<and>
         rotationY (update delta c raycast p) = pi \<and>
         verticalVelocity (update delta c raycast p) = SPAWN_INITIAL_VELOCITY \<and>
         timeSinceGrounded (update delta c raycast p) = GROUNDED_BUFFER_TIME + 1 / 100 \<and>
         state (update delta c raycast p) =
           \<lparr>idle = False, walking = False, sprinting = False, jumping = True, falling = True\<rparr>"
proof -
  have u: "update delta c raycast p = reset (simulate delta c raycast p)"
    using assms by (simp add: update_def housekeeping_def)
  have m: "hasModel (simulate delta c raycast p)"
    using assms(1) by simp
  show ?thesis
    unfolding u using reset_values [OF m] by simp
qed

theorem void_reset_witness:
  "hasModel fallingPlayer \<and> hasMixer fallingPlayer \<and>
   vy (position (simulate (1 / 60) noInput emptyWorld fallingPlayer)) < -50 \<and>
   position (update (1 / 60) noInput emptyWorld fallingPlayer) = vec 0 240 0 \<and>
   state (update (1 / 60) noInput emptyWorld fallingPlayer) =
     \<lparr>idle = False, walking = False, sprinting = False, jumping = True, falling = True\<rparr>"
  using void_reset [OF fallingPlayer_fields(1,2) fallingPlayer_below]
  by (auto simp add: fallingPlayer_fields fallingPlayer_below)

text \<open>
  The frame of \<open>fallingPlayer\<close> over the void ends in the reset, and after it the
  vertical velocity is -1, not 0, and both airborne flags are set, not cleared.
\<close>

theorem void_reset_counterexample:
  "vy (position (simulate (1 / 60) noInput emptyWorld fallingPlayer)) < -50 \<and>
   verticalVelocity (update (1 / 60) noInput emptyWorld fallingPlayer) \<noteq> 0 \<and>
   jumping (state (update (1 / 60) noInput emptyWorld fallingPlayer)) \<and>
   falling (state (update (1 / 60) noInput emptyWorld fallingPlayer))"
proof -
  have u: "update (1 / 60) noInput emptyWorld fallingPlayer =
           reset (simulate (1 / 60) noInput emptyWorld fallingPlayer)"
    using fallingPlayer_below
    by (simp add: update_def housekeeping_def fallingPlayer_fields)
  have m: "hasModel (simulate (1 / 60) noInput emptyWorld fallingPlayer)"
    by (simp add: fallingPlayer_fields)
  show ?thesis
    unfolding u using reset_values [OF m] fallingPlayer_below
    by (simp add: SPAWN_INITIAL_VELOCITY_def)
qed

subsection \<open>Switching animations\<close>

lemma map_of_updateAction:
  "map_of (updateAction n f as) k = (if k = n then map_option f (map_of as k) else map_of as k)"
  by (induction as) (auto simp add: updateAction_def)

lemma oneShotConfig_updateAction:
  assumes "oneShotConfig as"
    and "\<And>a. loop (f a) = loop a \<and> clampWhenFinished (f a) = clampWhenFinished a"
  shows "oneShotConfig (updateAction n f as)"
  using assms(1)
  unfolding oneShotConfig_def updateAction_def list.pred_map
  by (rule list.pred_mono_strong) (auto simp add: assms(2) split: if_splits)

lemma oneShotConfig_jump:
  assumes "oneShotConfig as"
  shows "oneShotConfig
           (updateAction ''jump'' (\<lambda>a. a\<lparr>loop := LoopOnce, clampWhenFinished := True\<rparr>) as)"
  using assms
  unfolding oneShotConfig_def updateAction_def list.pred_map
  by (rule list.pred_mono_strong) (auto split: if_splits)

lemma switchAnimation_oneShotConfig:
  assumes "oneShotConfig (animations p)"
  shows "oneShotConfig (animations (switchAnimation name fade p))"
proof -
  have s: "oneShotConfig (updateAction k stop as)" if "oneShotConfig as" for k as
    using that by (rule oneShotConfig_updateAction) (simp add: stop_def)
  have r: "oneShotConfig (updateAction k restart_action as)" if "oneShotConfig as" for k as
    using that by (rule oneShotConfig_updateAction) (simp add: restart_action_def)
  show ?thesis
    using assms
    by (auto simp add: switchAnimation_def Let_def s r oneShotConfig_jump split: option.split)
qed


lemma repeating_updateAction:
  assumes "repeating as"
    and "\<And>a. loop (f a) = loop a \<and> clampWhenFinished (f a) = clampWhenFinished a"
  shows "repeating (updateAction n f as)"
  using assms(1)
  unfolding repeating_def updateAction_def list.pred_map
  by (rule list.pred_mono_strong) (auto simp add: assms(2) split: if_splits)

lemma repeating_jump:
  assumes "repeating as"
  shows "oneShotConfig
           (updateAction ''jump'' (\<lambda>a. a\<lparr>loop := LoopOnce, clampWhenFinished := True\<rparr>) as)"
  using assms
  unfolding repeating_def oneShotConfig_def updateAction_def list.pred_map
  by (rule list.pred_mono_strong) (auto split: if_splits)

lemma repeating_no_jump:
  assumes "repeating as" and "map_of as ''jump'' = None"
  shows "oneShotConfig as"
proof -
  have "k \<noteq> ''jump''" if "(k, a) \<in> set as" for k a
    using that assms(2) by (force simp add: map_of_eq_None_iff)
  with assms(1) show ?thesis
    unfolding repeating_def oneShotConfig_def
    by (auto elim!: list.pred_mono_strong)
qed

lemma repeating_addClip: "repeating as \<Longrightarrow> repeating (addClip n as)"
  by (auto simp add: addClip_def Let_def assign_def repeating_def clipAction_def list.pred_map
      elim!: list.pred_mono_strong)

lemma repeating_fold_addClip: "repeating as \<Longrightarrow> repeating (fold addClip ns as)"
  by (induction ns arbitrary: as) (simp_all add: repeating_addClip)

lemma repeating_stop: "repeating as \<Longrightarrow> repeating (map (\<lambda>(k, a). (k, stop a)) as)"
  unfolding repeating_def list.pred_map
  by (erule list.pred_mono_strong) (auto simp add: stop_def)

lemma switchAnimation_jump_first:
  assumes "repeating (animations p)" and "currentAnimation p \<noteq> Some ''jump''"
  shows "oneShotConfig (animations (switchAnimation ''jump'' fade p))"
proof (cases "map_of (animations p) ''jump''")
  case None
  with assms show ?thesis
    by (simp add: switchAnimation_def repeating_no_jump)
next
  case (Some target)
  have s: "repeating (updateAction k stop as)" if "repeating as" for k as
    using that by (rule repeating_updateAction) (simp add: stop_def)
  have r: "repeating (updateAction k restart_action as)" if "repeating as" for k as
    using that by (rule repeating_updateAction) (simp add: restart_action_def)
  from Some assms show ?thesis
    by (auto simp add: switchAnimation_def Let_def s r repeating_jump split: option.split)
qed

lemma load_oneShotConfig:
  "oneShotConfig (animations (load bboxMinY center worldMaxY clipNames newPlayer))"
proof -
  have "repeating (map (\<lambda>(k, a). (k, stop a)) (fold addClip clipNames []))"
    by (intro repeating_stop repeating_fold_addClip) (simp add: repeating_def)
  then show ?thesis
    by (simp add: load_def Let_def newPlayer_def switchAnimation_jump_first)
qed

lemma loadedPlayer_animations:
  "animations loadedPlayer =
     [(''idle'', clipAction), (''walk'', clipAction), (''sprint'', clipAction),
      (''jump'', clipAction\<lparr>playing := True, loop := LoopOnce, clampWhenFinished := True\<rparr>)]"
  "console loadedPlayer = []"
  by (simp_all add: loadedPlayer_def load_def Let_def exampleClips_loaded newPlayer_def
      switchAnimation_def updateAction_def animationKey_def stop_def restart_action_def
      clipAction_def)

lemma getProperty_loaded:
  "k \<notin> set objectPrototypeKeys \<Longrightarrow>
   getProperty as k = (case map_of as k of None \<Rightarrow> Undefined | Some a \<Rightarrow> Own a)"
  by (simp add: getProperty_def)

text \<open>
  Where neither the requested name nor the key of the current clip is an inherited
  name, the call returns, and \<open>switchAnimation\<close> is what it returns. That is so for
  every call the player makes: it passes \<open>jump\<close>, \<open>idle\<close>, \<open>walk\<close> or \<open>sprint\<close>, and
  the current clip is \<open>null\<close> or one of these.
\<close>

lemma switchAnimationCall_own_names:
  assumes "name \<notin> set objectPrototypeKeys"
    and "animationKey (currentAnimation p) \<notin> set objectPrototypeKeys"
  shows "switchAnimationCall name fade p = Returned (switchAnimation name fade p)"
  using assms
  by (simp add: switchAnimationCall_def switchAnimation_def getProperty_loaded Let_def
      split: option.split)

lemma requested_names:
  "''jump'' \<notin> set objectPrototypeKeys" "''idle'' \<notin> set objectPrototypeKeys"
  "''walk'' \<notin> set objectPrototypeKeys" "''sprint'' \<notin> set objectPrototypeKeys"
  "''null'' \<notin> set objectPrototypeKeys"
  by (simp_all add: objectPrototypeKeys_def)

text \<open>
  The entry point on those names. For a name that is not loaded the call prints the
  warning and changes nothing else; for the clip that is already current it changes
  nothing; otherwise the requested clip becomes the current one and plays, and the jump
  clip is made one-shot. The loop configuration in which the jump clip alone plays once
  and holds its last frame and every other clip repeats is established by \<open>load\<close> and
  kept by every switch.
\<close>

lemma switchAnimationCall_entry_point:
  assumes "name \<notin> set objectPrototypeKeys"
    and "animationKey (currentAnimation p) \<notin> set objectPrototypeKeys"
  shows "(map_of (animations p) name = None \<longrightarrow>
            switchAnimationCall name fade p =
              Returned (p\<lparr>console := console p @ [warning name]\<rparr>)) \<and>
         (map_of (animations p) name \<noteq> None \<and> currentAnimation p = Some name \<longrightarrow>
            switchAnimationCall name fade p = Returned p) \<and>
         (map_of (animations p) name \<noteq> None \<and> currentAnimation p \<noteq> Some name \<longrightarrow>
            (\<exists>q a. switchAnimationCall name fade p = Returned q \<and>
                   currentAnimation q = Some name \<and> console q = console p \<and>
                   map_of (animations q) name = Some a \<and> playing a \<and>
                   (name = ''jump'' \<longrightarrow> loop a = LoopOnce \<and> clampWhenFinished a))) \<and>
         (oneShotConfig (animations p) \<longrightarrow>
            (\<exists>q. switchAnimationCall name fade p = Returned q \<and>
                 oneShotConfig (animations q))) \<and>
         oneShotConfig (animations (load bboxMinY center worldMaxY clipNames newPlayer))"
proof -
  note call = switchAnimationCall_own_names [OF assms]
  have warn: "switchAnimation name fade p = p\<lparr>console := console p @ [warning name]\<rparr>"
    if "map_of (animations p) name = None"
    using that by (simp add: switchAnimation_def)
  have same: "switchAnimation name fade p = p"
    if "map_of (animations p) name \<noteq> None" and "currentAnimation p = Some name"
    using that by (auto simp add: switchAnimation_def)
  have switch: "currentAnimation (switchAnimation name fade p) = Some name \<and>
      console (switchAnimation name fade p) = console p \<and>
      (\<exists>a. map_of (animations (switchAnimation name fade p)) name = Some a \<and> playing a \<and>
           (name = ''jump'' \<longrightarrow> loop a = LoopOnce \<and> clampWhenFinished a))"
    if "map_of (animations p) name \<noteq> None" and "currentAnimation p \<noteq> Some name"
    using that
    by (auto simp add: switchAnimation_def Let_def map_of_updateAction restart_action_def
        split: option.split)
  from warn same switch show ?thesis
    unfolding call
    by (simp add: switchAnimation_oneShotConfig load_oneShotConfig)
qed


subsection \<open>Reset\<close>

lemma switchAnimation_missing:
  "map_of (animations p) name = None \<Longrightarrow>
   switchAnimation name fade p = p\<lparr>console := console p @ [warning name]\<rparr>"
  by (simp add: switchAnimation_def)

lemma switchAnimation_current:
  "map_of (animations p) name \<noteq> None \<Longrightarrow> currentAnimation p = Some name \<Longrightarrow>
   switchAnimation name fade p = p"
  by (auto simp add: switchAnimation_def)

lemma switchAnimation_loaded:
  assumes "map_of (animations p) name \<noteq> None"
  shows "currentAnimation (switchAnimation name fade p) = Some name"
    and "map_of (animations (switchAnimation name fade p)) name \<noteq> None"
    and "console (switchAnimation name fade p) = console p"
  using assms
  by (auto simp add: switchAnimation_def Let_def map_of_updateAction split: option.split)

lemma switchAnimation_twice:
  "(switchAnimation name fade (switchAnimation name fade' p))\<lparr>console := []\<rparr> =
   (switchAnimation name fade' p)\<lparr>console := []\<rparr>"
proof (cases "map_of (animations p) name")
  case None
  then show ?thesis by (simp add: switchAnimation_missing)
next
  case (Some a)
  then have l: "map_of (animations p) name \<noteq> None" by simp
  show ?thesis
    using switchAnimation_current [OF switchAnimation_loaded(2,1) [OF l]] by simp
qed

lemma switchAnimation_twice_loaded:
  "map_of (animations p) name \<noteq> None \<Longrightarrow>
   switchAnimation name fade (switchAnimation name fade' p) = switchAnimation name fade' p"
  using switchAnimation_current [OF switchAnimation_loaded(2,1)] by simp

lemma switchAnimation_respawn:
  "(switchAnimation n f p)\<lparr>position := a, rotationX := b, rotationY := c,
     verticalVelocity := d, timeSinceGrounded := e, state := s\<rparr> =
   switchAnimation n f (p\<lparr>position := a, rotationX := b, rotationY := c,
     verticalVelocity := d, timeSinceGrounded := e, state := s\<rparr>)"
  by (simp add: switchAnimation_def Let_def split: option.split)

lemma reset_reset: "(reset (reset p))\<lparr>console := []\<rparr> = (reset p)\<lparr>console := []\<rparr>"
proof (cases "hasModel p")
  case False
  then show ?thesis by (simp add: reset_def)
next
  case True
  then show ?thesis
    by (simp add: reset_def switchAnimation_respawn switchAnimation_twice)
qed

lemma reset_reset_jump:
  assumes "map_of (animations p) ''jump'' \<noteq> None \<or> \<not> hasModel p"
  shows "reset (reset p) = reset p"
proof (cases "hasModel p")
  case False
  then show ?thesis by (simp add: reset_def)
next
  case True
  with assms show ?thesis
    by (simp add: reset_def switchAnimation_respawn switchAnimation_twice_loaded)
qed

lemma reset_reset_position:
  "position (reset (reset p)) = position (reset p)"
  "rotationY (reset (reset p)) = rotationY (reset p)"
  by (simp_all add: reset_def)

lemma cameraReset_eq:
  "cameraReset m tp ty cam =
     (let start = setFromSphericalCoords CINEMATIC_RADIUS START_POLAR_ANGLE (ty + pi)
      in cam\<lparr>mode := CINEMATIC_FALL, azimuth := ty + pi, cinematicTimer := 0,
             smoothedLookAt := tp, cameraPosition := vadd tp start, cameraLookAt := tp\<rparr>)"
  by (simp add: cameraReset_def cameraUpdate_def Let_def FALL_TRANSITION_DURATION_def
      easeInOutCubic_def lerp_def lerpAngle_def lerpVectors_def)

lemma cameraReset_cameraReset:
  "cameraReset m tp ty (cameraReset m' tp ty cam) = cameraReset m tp ty cam"
  by (simp add: cameraReset_eq Let_def)

lemma cameraReset_timer: "cinematicTimer (cameraReset m tp ty cam) = 0"
  by (simp add: cameraReset_eq Let_def)

text \<open>
  C6. Restarting twice leaves the player and the camera exactly as restarting once does;
  only the console can differ, by the warning that is printed again when no jump clip is
  loaded. After a restart the camera is in the cinematic fall with its timer at 0, and a
  loaded player is at the spawn point with the spawn velocity and the spawn flags.
\<close>

theorem restart_idempotent:
  "withoutConsole (restart (restart g)) = withoutConsole (restart g) \<and>
   (map_of (animations (player g)) ''jump'' \<noteq> None \<or> \<not> hasModel (player g) \<longrightarrow>
      restart (restart g) = restart g) \<and>
   mode (gameCamera (restart g)) = CINEMATIC_FALL \<and>
   cinematicTimer (gameCamera (restart g)) = 0 \<and>
   (hasModel (player g) \<longrightarrow>
      position (player (restart g)) = spawnPoint (player g) \<and>
      verticalVelocity (player (restart g)) = SPAWN_INITIAL_VELOCITY \<and>
      state (player (restart g)) =
        \<lparr>idle = False, walking = False, sprinting = False, jumping = True, falling = True\<rparr>)"
proof -
  have a: "withoutConsole (restart (restart g)) = withoutConsole (restart g)"
    using reset_reset [of "player g"]
    by (simp add: withoutConsole_def restart_def Let_def reset_reset_position
        cameraReset_cameraReset)
  have b: "restart (restart g) = restart g"
    if "map_of (animations (player g)) ''jump'' \<noteq> None \<or> \<not> hasModel (player g)"
    using reset_reset_jump [OF that]
    by (simp add: restart_def Let_def cameraReset_cameraReset)
  from a b show ?thesis
    by (simp add: restart_mode reset_values) (simp add: restart_def Let_def cameraReset_timer reset_values)
qed

theorem restart_idempotent_witness:
  "map_of (animations (player touchdownViewer)) ''jump'' \<noteq> None \<and>
   hasModel (player touchdownViewer) \<and>
   restart (restart touchdownViewer) = restart touchdownViewer \<and>
   position (player (restart touchdownViewer)) = vec 0 240 0 \<and>
   verticalVelocity (player (restart touchdownViewer)) = -1"
  using restart_idempotent [of touchdownViewer]
  by (simp add: touchdownViewer_def loadedPlayer_animations loadedPlayer_fields
      SPAWN_INITIAL_VELOCITY_def)

subsection \<open>The shortest angle\<close>

lemma jsmod_nonneg:
  assumes "0 < n" and "0 \<le> a"
  shows "0 \<le> jsmod a n" and "jsmod a n < n"
proof -
  have q: "0 \<le> a / n" using assms by simp
  have e: "n * (a / n) = a" using assms(1) by simp
  have "n * of_int \<lfloor>a / n\<rfloor> \<le> n * (a / n)"
    using assms(1) by (intro mult_left_mono) simp_all
  then show "0 \<le> jsmod a n" using q e by (simp add: jsmod_def trunc_def)
  have "a / n < of_int \<lfloor>a / n\<rfloor> + 1" by linarith
  then have "n * (a / n) < n * (of_int \<lfloor>a / n\<rfloor> + 1)"
    using assms(1) by (intro mult_strict_left_mono) simp_all
  then show "jsmod a n < n" using q e by (simp add: jsmod_def trunc_def algebra_simps)
qed

lemma jsmod_neg:
  assumes "0 < n" and "a < 0"
  shows "- n < jsmod a n" and "jsmod a n \<le> 0"
proof -
  have q: "\<not> 0 \<le> a / n" using assms by (simp add: field_simps)
  have e: "n * (a / n) = a" using assms(1) by simp
  have "n * (a / n) \<le> n * of_int \<lceil>a / n\<rceil>"
    using assms(1) by (intro mult_left_mono) simp_all
  then show "jsmod a n \<le> 0" using q e by (simp add: jsmod_def trunc_def)
  have "of_int \<lceil>a / n\<rceil> - 1 < a / n" by linarith
  then have "n * (of_int \<lceil>a / n\<rceil> - 1) < n * (a / n)"
    using assms(1) by (intro mult_strict_left_mono) simp_all
  then show "- n < jsmod a n" using q e by (simp add: jsmod_def trunc_def algebra_simps)
qed

lemma shortestAngleDiff_range: "- pi \<le> shortestAngleDiff a b" "shortestAngleDiff a b < pi"
proof -
  have n: "0 < pi * 2" by simp
  show "- pi \<le> shortestAngleDiff a b"
    using jsmod_nonneg [OF n, of "b - a + pi"] jsmod_neg [OF n, of "b - a + pi"]
    by (cases "0 \<le> b - a + pi") (auto simp add: shortestAngleDiff_def Let_def)
  show "shortestAngleDiff a b < pi"
    using jsmod_nonneg [OF n, of "b - a + pi"] jsmod_neg [OF n, of "b - a + pi"]
    by (cases "0 \<le> b - a + pi") (auto simp add: shortestAngleDiff_def Let_def)
qed

lemma shortestAngleDiff_turns: "\<exists>k::int. shortestAngleDiff a b = b - a + 2 * pi * of_int k"
proof -
  define t where "t = trunc ((b - a + pi) / (pi * 2))"
  have d: "jsmod (b - a + pi) (pi * 2) - pi = b - a + 2 * pi * of_int (- t)"
    by (simp add: jsmod_def t_def algebra_simps)
  show ?thesis
  proof (cases "jsmod (b - a + pi) (pi * 2) - pi < - pi")
    case True
    then have "shortestAngleDiff a b = b - a + 2 * pi * of_int (1 - t)"
      using d by (simp add: shortestAngleDiff_def Let_def algebra_simps)
    then show ?thesis by blast
  next
    case False
    then have "shortestAngleDiff a b = b - a + 2 * pi * of_int (- t)"
      using d by (simp add: shortestAngleDiff_def Let_def)
    then show ?thesis by blast
  qed
qed

lemma shortestAngleDiff_170: "shortestAngleDiff (17 * pi / 18) (- (17 * pi / 18)) = pi / 9"
proof -
  have q: "(- (17 * pi / 18) - 17 * pi / 18 + pi) / (pi * 2) = - (4 / 9)"
    by (simp add: field_simps)
  have "trunc (- (4 / 9)) = 0"
    by (simp add: trunc_def)
  then have "jsmod (- (17 * pi / 18) - 17 * pi / 18 + pi) (pi * 2) = - (8 * pi / 9)"
    unfolding jsmod_def q by simp
  then show ?thesis
    by (simp add: shortestAngleDiff_def Let_def)
qed

lemma shortestAngleDiff_half_turn: "shortestAngleDiff 0 pi = - pi"
proof -
  have "jsmod (pi - 0 + pi) (pi * 2) = 0"
    by (simp add: jsmod_def trunc_def)
  then show ?thesis
    by (simp add: shortestAngleDiff_def Let_def)
qed


text \<open>
  C5, as the code has it. \<open>lerpAngle a b t\<close> is \<open>a\<close> plus \<open>t\<close> times the signed
  difference from \<open>a\<close> to \<open>b\<close>, and that difference is \<open>b - a\<close> up to whole turns,
  normalised to the interval from \<open>- pi\<close> (included) to \<open>pi\<close> (excluded); so for
  \<open>t\<close> between 0 and 1 the result never leaves the shorter arc. From 170 degrees to
  -170 degrees the result stays between 170 and 190 degrees and is 180 degrees half-way.
\<close>

theorem lerpAngle_shortest_arc:
  "lerpAngle a b t = a + shortestAngleDiff a b * t \<and>
   - pi \<le> shortestAngleDiff a b \<and> shortestAngleDiff a b < pi \<and>
   (\<exists>k::int. shortestAngleDiff a b = b - a + 2 * pi * of_int k) \<and>
   (0 \<le> t \<and> t \<le> 1 \<longrightarrow>
      \<bar>lerpAngle a b t - a\<bar> \<le> \<bar>shortestAngleDiff a b\<bar> \<and> \<bar>lerpAngle a b t - a\<bar> \<le> pi) \<and>
   (0 \<le> t \<and> t \<le> 1 \<longrightarrow>
      17 * pi / 18 \<le> lerpAngle (17 * pi / 18) (- (17 * pi / 18)) t \<and>
      lerpAngle (17 * pi / 18) (- (17 * pi / 18)) t \<le> 19 * pi / 18) \<and>
   lerpAngle (17 * pi / 18) (- (17 * pi / 18)) (1 / 2) = pi"
proof -
  have arc: "\<bar>lerpAngle a b t - a\<bar> \<le> \<bar>shortestAngleDiff a b\<bar> \<and> \<bar>lerpAngle a b t - a\<bar> \<le> pi"
    if "0 \<le> t" and "t \<le> 1"
  proof -
    have "\<bar>shortestAngleDiff a b * t\<bar> = \<bar>shortestAngleDiff a b\<bar> * t"
      using that(1) by (simp add: abs_mult)
    also have "\<dots> \<le> \<bar>shortestAngleDiff a b\<bar> * 1"
      using that(2) by (intro mult_left_mono) simp_all
    finally have 1: "\<bar>lerpAngle a b t - a\<bar> \<le> \<bar>shortestAngleDiff a b\<bar>"
      by (simp add: lerpAngle_def)
    have "\<bar>shortestAngleDiff a b\<bar> \<le> pi"
      using shortestAngleDiff_range [of a b] by linarith
    with 1 show ?thesis by linarith
  qed
  have ex: "17 * pi / 18 \<le> lerpAngle (17 * pi / 18) (- (17 * pi / 18)) t \<and>
            lerpAngle (17 * pi / 18) (- (17 * pi / 18)) t \<le> 19 * pi / 18"
    if "0 \<le> t" and "t \<le> 1"
  proof -
    have "0 \<le> pi / 9 * t" using that(1) by simp
    moreover have "pi / 9 * t \<le> pi / 9 * 1"
      using that(2) by (intro mult_left_mono) simp_all
    ultimately show ?thesis
      by (simp add: lerpAngle_def shortestAngleDiff_170)
  qed
  have half: "lerpAngle (17 * pi / 18) (- (17 * pi / 18)) (1 / 2) = pi"
    by (simp add: lerpAngle_def shortestAngleDiff_170)
  from arc ex half shortestAngleDiff_range [of a b] shortestAngleDiff_turns [of a b]
  show ?thesis by (simp add: lerpAngle_def)
qed

theorem lerpAngle_shortest_arc_witness:
  "(0::real) \<le> 1 / 2 \<and> (1 / 2::real) \<le> 1 \<and>
   17 * pi / 18 \<le> lerpAngle (17 * pi / 18) (- (17 * pi / 18)) (1 / 2) \<and>
   lerpAngle (17 * pi / 18) (- (17 * pi / 18)) (1 / 2) \<le> 19 * pi / 18 \<and>
   \<bar>lerpAngle (17 * pi / 18) (- (17 * pi / 18)) (1 / 2) - 17 * pi / 18\<bar> \<le> pi"
  using lerpAngle_shortest_arc [of "17 * pi / 18" "- (17 * pi / 18)" "1 / 2"]
  by simp

text \<open>
  From angle 0 to angle \<open>pi\<close> the difference the code takes is \<open>- pi\<close>, which lies
  outside the interval from \<open>- pi\<close> (excluded) to \<open>pi\<close> (included).
\<close>

theorem lerpAngle_half_turn_counterexample:
  "\<not> (- pi < shortestAngleDiff 0 pi \<and> shortestAngleDiff 0 pi \<le> pi) \<and>
   lerpAngle 0 pi 1 = - pi"
  by (simp add: lerpAngle_def shortestAngleDiff_half_turn)

subsection \<open>Turning and walking\<close>

lemma sprinting_before_movement [simp]:
  "sprinting (state (groundCheck d g p)) = sprinting (state p)"
  "sprinting (state (leaveGround j p)) = sprinting (state p)"
  "sprinting (state (jumpInput g c p)) = sprinting (state p)"
  by (simp_all add: groundCheck_def leaveGround_def jumpInput_def Let_def)

lemma groundCheck_rotationX:
  "rotationX (groundCheck d g p) =
     (if g \<and> (falling (state p) \<or> jumping (state p)) then 0 else rotationX p)"
  by (simp add: groundCheck_def Let_def)

lemma movementInput_rotationY:
  "rotationY (movementInput d c g p) =
     rotationY p + (if left c then 3 * d else 0) - (if right c then 3 * d else 0)"
  by (simp add: movementInput_def Let_def)

lemma movementInput_position:
  "position (movementInput d c g p) =
     (if moving c then
        vadd (position p)
          (multiplyScalar
             (applyQuaternion (rotationX p) (rotationY (movementInput d c g p))
                (normalize (dir c)))
             ((if sprinting (state p) then SPRINT_SPEED else WALK_SPEED) *
              (if g then 1 else AIR_CONTROL_FACTOR) * d))
      else position p)"
  by (simp add: movementInput_def Let_def)

lemma simulate_rotationY:
  "rotationY (simulate d c rc p) =
     rotationY p + (if left c then 3 * d else 0) - (if right c then 3 * d else 0)"
  by (simp add: simulate_def Let_def movementInput_rotationY)

lemma verticalPhysics_xz:
  "vx (position (verticalPhysics d g hs p)) = vx (position p)"
  "vz (position (verticalPhysics d g hs p)) = vz (position p)"
  by (simp_all add: verticalPhysics_position Let_def)

lemma simulate_xz:
  "vx (position (simulate d c rc p)) =
     vx (position (movementInput d c (groundedNow rc p)
           (p\<lparr>rotationX := (if groundedNow rc p \<and> (falling (state p) \<or> jumping (state p))
                              then 0 else rotationX p)\<rparr>)))"
  "vz (position (simulate d c rc p)) =
     vz (position (movementInput d c (groundedNow rc p)
           (p\<lparr>rotationX := (if groundedNow rc p \<and> (falling (state p) \<or> jumping (state p))
                              then 0 else rotationX p)\<rparr>)))"
  by (simp_all add: simulate_def Let_def verticalPhysics_xz movementInput_position
      movementInput_rotationY groundCheck_rotationX groundedNow_def rayHits_def)

lemma update_running:
  assumes "hasModel p" and "hasMixer p" and "\<not> vy (position (simulate d c rc p)) < -50"
  shows "update d c rc p = (simulate d c rc p)\<lparr>mixerTime := mixerTime p + d\<rparr>"
  using assms by (simp add: update_def housekeeping_def)


lemma simulate_airborne_level_y:
  assumes "\<not> groundedNow rc p" and "rotationX p = 0"
  shows "vy (position (simulate d c rc p)) =
           vy (position p) + max TERMINAL_VELOCITY (verticalVelocity p + GRAVITY * d) * d"
  using assms
  by (simp add: simulate_def Let_def verticalPhysics_position groundedNow_def rayHits_def
      movementInput_position groundCheck_rotationX jumpInput_vv vadd_def multiplyScalar_def
      applyQuaternion_def rotateX_def rotateY_def normalize_def dir_def vec_def)

lemma loadedPlayer_pose:
  "rotationX loadedPlayer = 0"
  "rotationY loadedPlayer = pi"
  "verticalVelocity loadedPlayer = -1"
  "state loadedPlayer =
     \<lparr>idle = False, walking = False, sprinting = False, jumping = True, falling = True\<rparr>"
  by (simp_all add: loadedPlayer_def load_def Let_def newPlayer_def SPAWN_INITIAL_VELOCITY_def)

lemma loadedPlayer_airborne: "\<not> groundedNow flatWorld loadedPlayer"
  by (simp add: groundedNow_def rayHits_def groundSensor_def flatWorld_def vec_def
      loadedPlayer_fields player_consts)

lemma fallingPlayer_turning_below:
  "vy (position (simulate (1 / 60) (noInput\<lparr>left := True\<rparr>) emptyWorld fallingPlayer)) < -50"
  using simulate_airborne_y [OF fallingPlayer_airborne, of "noInput\<lparr>left := True\<rparr>" "1 / 60"]
  by (simp add: moving_def noInput_def fallingPlayer_fields vec_def player_consts)

lemma fallingPlayer_yaw: "rotationY fallingPlayer = pi"
  by (simp add: fallingPlayer_def loadedPlayer_pose)

text \<open>
  C10, as the code has it. In every frame of a loaded player the movement step adds
  \<open>3 * delta\<close> to the yaw for left input and subtracts \<open>3 * delta\<close> for right input,
  whether or not the character is on the ground, and moves the character horizontally,
  when forward or backward is held, by the heading times walk or sprint speed times
  \<open>delta\<close>, times the air-control factor 0.6 exactly when the character is not on the
  ground; nothing later in the frame changes the yaw or the horizontal position, up to
  the housekeeping step. If the frame does not end in the void reset, these are the yaw
  and the position after the update. If it does, the reset overwrites them: the yaw
  after the update is \<open>pi\<close> and the position is the spawn point.
\<close>

theorem air_control_scales_translation_only:
  assumes "hasModel p" and "hasMixer p"
  shows "rotationY (simulate delta c raycast p) =
           rotationY p + (if left c then 3 * delta else 0) - (if right c then 3 * delta else 0) \<and>
         (let tilt = (if groundedNow raycast p \<and> (falling (state p) \<or> jumping (state p))
                      then 0 else rotationX p);
              baseSpeed = (if sprinting (state p) then SPRINT_SPEED else WALK_SPEED);
              speedFactor = (if groundedNow raycast p then 1 else AIR_CONTROL_FACTOR);
              d = multiplyScalar
                    (applyQuaternion tilt (rotationY (simulate delta c raycast p))
                       (normalize (dir c)))
                    (baseSpeed * speedFactor * delta)
          in vx (position (simulate delta c raycast p)) =
               vx (position p) + (if moving c then vx d else 0) \<and>
             vz (position (simulate delta c raycast p)) =
               vz (position p) + (if moving c then vz d else 0)) \<and>
         (\<not> vy (position (simulate delta c raycast p)) < -50 \<longrightarrow>
            rotationY (update delta c raycast p) = rotationY (simulate delta c raycast p) \<and>
            position (update delta c raycast p) = position (simulate delta c raycast p)) \<and>
         (vy (position (simulate delta c raycast p)) < -50 \<longrightarrow>
            rotationY (update delta c raycast p) = pi \<and>
            position (update delta c raycast p) = spawnPoint p) \<and>
         AIR_CONTROL_FACTOR = 6 / 10"
proof -
  have turn: "rotationY (simulate delta c raycast p) =
      rotationY p + (if left c then 3 * delta else 0) - (if right c then 3 * delta else 0)"
    by (simp add: simulate_rotationY)
  have walk: "(let tilt = (if groundedNow raycast p \<and> (falling (state p) \<or> jumping (state p))
                      then 0 else rotationX p);
              baseSpeed = (if sprinting (state p) then SPRINT_SPEED else WALK_SPEED);
              speedFactor = (if groundedNow raycast p then 1 else AIR_CONTROL_FACTOR);
              d = multiplyScalar
                    (applyQuaternion tilt (rotationY (simulate delta c raycast p))
                       (normalize (dir c)))
                    (baseSpeed * speedFactor * delta)
          in vx (position (simulate delta c raycast p)) =
               vx (position p) + (if moving c then vx d else 0) \<and>
             vz (position (simulate delta c raycast p)) =
               vz (position p) + (if moving c then vz d else 0))"
    by (simp add: simulate_rotationY simulate_xz movementInput_position
        movementInput_rotationY Let_def vadd_def)
  have running: "rotationY (update delta c raycast p) = rotationY (simulate delta c raycast p) \<and>
      position (update delta c raycast p) = position (simulate delta c raycast p)"
    if v: "\<not> vy (position (simulate delta c raycast p)) < -50"
    by (simp add: update_running [OF assms v])
  have respawn: "rotationY (update delta c raycast p) = pi \<and>
      position (update delta c raycast p) = spawnPoint p"
    if "vy (position (simulate delta c raycast p)) < -50"
    using that assms by (simp add: update_def housekeeping_def reset_values)
  have factor: "AIR_CONTROL_FACTOR = 6 / 10"
    by (simp add: AIR_CONTROL_FACTOR_def)
  from turn walk running respawn factor show ?thesis
    by blast
qed

theorem air_control_scales_translation_only_witness:
  "hasModel loadedPlayer \<and> hasMixer loadedPlayer \<and>
   \<not> vy (position (simulate (1 / 60) (noInput\<lparr>forward := True, left := True\<rparr>) flatWorld
          loadedPlayer)) < -50 \<and>
   \<not> groundedNow flatWorld loadedPlayer \<and>
   rotationY (update (1 / 60) (noInput\<lparr>forward := True, left := True\<rparr>) flatWorld loadedPlayer) =
     pi + 1 / 20 \<and>
   vx (position
        (update (1 / 60) (noInput\<lparr>forward := True, left := True\<rparr>) flatWorld loadedPlayer)) =
     sin (pi + 1 / 20) * (25 / 10 * (6 / 10) * (1 / 60)) \<and>
   hasModel fallingPlayer \<and> hasMixer fallingPlayer \<and>
   vy (position (simulate (1 / 60) (noInput\<lparr>left := True\<rparr>) emptyWorld fallingPlayer)) < -50 \<and>
   position (update (1 / 60) (noInput\<lparr>left := True\<rparr>) emptyWorld fallingPlayer) = vec 0 240 0"
proof -
  let ?c = "noInput\<lparr>forward := True, left := True\<rparr>"
  have y: "\<not> vy (position (simulate (1 / 60) ?c flatWorld loadedPlayer)) < -50"
    using simulate_airborne_level_y [OF loadedPlayer_airborne loadedPlayer_pose(1), of "1 / 60" ?c]
    by (simp add: loadedPlayer_fields loadedPlayer_pose vec_def player_consts)
  have air: "rotationY (update (1 / 60) ?c flatWorld loadedPlayer) = pi + 1 / 20 \<and>
      vx (position (update (1 / 60) ?c flatWorld loadedPlayer)) =
        sin (pi + 1 / 20) * (25 / 10 * (6 / 10) * (1 / 60))"
    using air_control_scales_translation_only [OF loadedPlayer_fields(1,2), of "1 / 60" ?c
        flatWorld] y loadedPlayer_airborne
    by (auto simp add: loadedPlayer_fields loadedPlayer_pose Let_def noInput_def moving_def
        dir_def normalize_def vlength_def vec_def applyQuaternion_def rotateX_def rotateY_def
        multiplyScalar_def player_consts)
  have void: "position (update (1 / 60) (noInput\<lparr>left := True\<rparr>) emptyWorld fallingPlayer) =
      vec 0 240 0"
    using air_control_scales_translation_only [OF fallingPlayer_fields(1,2), of "1 / 60"
        "noInput\<lparr>left := True\<rparr>" emptyWorld] fallingPlayer_turning_below
    by (simp add: fallingPlayer_fields)
  from y air void show ?thesis
    by (simp add: loadedPlayer_fields loadedPlayer_airborne fallingPlayer_fields
        fallingPlayer_turning_below)
qed

text \<open>
  \<open>fallingPlayer\<close> turns left over the void: the frame ends below height -50, and
  after it the yaw is \<open>pi\<close>, as before the frame, and not \<open>pi + 3 * delta\<close>.
\<close>

theorem air_control_void_reset_counterexample:
  "left (noInput\<lparr>left := True\<rparr>) \<and> rotationY fallingPlayer = pi \<and>
   vy (position (simulate (1 / 60) (noInput\<lparr>left := True\<rparr>) emptyWorld fallingPlayer)) < -50 \<and>
   rotationY (update (1 / 60) (noInput\<lparr>left := True\<rparr>) emptyWorld fallingPlayer) = pi \<and>
   rotationY (update (1 / 60) (noInput\<lparr>left := True\<rparr>) emptyWorld fallingPlayer) \<noteq>
     rotationY fallingPlayer + 3 * (1 / 60)"
proof -
  have m: "hasModel (simulate (1 / 60) (noInput\<lparr>left := True\<rparr>) emptyWorld fallingPlayer)"
    by (simp add: fallingPlayer_fields)
  have "rotationY (update (1 / 60) (noInput\<lparr>left := True\<rparr>) emptyWorld fallingPlayer) = pi"
    using fallingPlayer_turning_below reset_values(3) [OF m]
    by (simp add: update_def housekeeping_def fallingPlayer_fields)
  then show ?thesis
    by (simp add: fallingPlayer_turning_below fallingPlayer_yaw)
qed

subsection \<open>Flags, ramp timer and clip of a frame\<close>

lemma groundCheck_state:
  "state (groundCheck d g p) =
     (if g then (state p)\<lparr>falling := False, jumping := False\<rparr>
      else (state p)\<lparr>falling := falling (state p) \<or>
              (timeSinceGrounded p + d > GROUNDED_BUFFER_TIME \<and> \<not> jumping (state p))\<rparr>)"
  by (cases "state p") (simp add: groundCheck_def Let_def)

lemma leaveGround_state:
  "state (leaveGround j p) = (if j then (state p)\<lparr>walking := False\<rparr> else state p)"
  by (simp add: leaveGround_def Let_def)

lemma jumpInput_state:
  "state (jumpInput g c p) =
     (if g \<and> jump c
      then \<lparr>idle = False, walking = False, sprinting = sprinting (state p), jumping = True,
            falling = False\<rparr>
      else state p)"
  by (simp add: jumpInput_def Let_def)

lemma animationStateMachine_state:
  "state (animationStateMachine d g m p) =
     (if g then
        (if m then (state p)\<lparr>idle := False,
                     walking := \<not> (sprinting (state p) \<or> walkToSprintTime p + d > 1),
                     sprinting := sprinting (state p) \<or> walkToSprintTime p + d > 1\<rparr>
         else (state p)\<lparr>idle := True, walking := False, sprinting := False\<rparr>)
      else state p)"
  by (cases "state p") (simp add: animationStateMachine_def Let_def)


lemma simulate_grounded_state:
  assumes "groundedNow rc p"
  shows "state (simulate d c rc p) =
           \<lparr>idle = \<not> moving c,
            walking = (moving c \<and> \<not> (sprinting (state p) \<or> walkToSprintTime p + d > 1)),
            sprinting = (moving c \<and> (sprinting (state p) \<or> walkToSprintTime p + d > 1)),
            jumping = jump c, falling = False\<rparr>"
  using assms
  by (cases "state p")
     (simp add: simulate_def Let_def groundedNow_def rayHits_def animationStateMachine_state
      jumpInput_state leaveGround_state groundCheck_state)




lemma switchAnimation_keys [simp]:
  "(map_of (animations (switchAnimation n f p)) k = None) = (map_of (animations p) k = None)"
  by (auto simp add: switchAnimation_def Let_def map_of_updateAction split: option.split)

lemma switchAnimation_to [simp]:
  "map_of (animations p) n \<noteq> None \<Longrightarrow> currentAnimation (switchAnimation n f p) = Some n"
  by (rule switchAnimation_loaded(1))

lemma leaveGround_keys [simp]:
  "(map_of (animations (leaveGround j p)) k = None) = (map_of (animations p) k = None)"
  by (simp add: leaveGround_def Let_def)

lemma jumpInput_keys [simp]:
  "(map_of (animations (jumpInput g c p)) k = None) = (map_of (animations p) k = None)"
  by (simp add: jumpInput_def Let_def)

lemma animationStateMachine_keys [simp]:
  "(map_of (animations (animationStateMachine d g m p)) k = None) =
   (map_of (animations p) k = None)"
  by (simp add: animationStateMachine_def Let_def)

lemma simulate_keys [simp]:
  "(map_of (animations (simulate d c rc p)) k = None) = (map_of (animations p) k = None)"
  by (simp add: simulate_def Let_def)

lemma reset_keys [simp]:
  "(map_of (animations (reset p)) k = None) = (map_of (animations p) k = None)"
  by (simp add: reset_def)

lemma update_keys [simp]:
  "(map_of (animations (update d c rc p)) k = None) = (map_of (animations p) k = None)"
  by (simp add: update_def housekeeping_def)

lemma animationStateMachine_clip_moving:
  assumes "map_of (animations p) ''walk'' \<noteq> None" and "map_of (animations p) ''sprint'' \<noteq> None"
  shows "currentAnimation (animationStateMachine d True True p) =
           Some (if sprinting (state p) \<or> walkToSprintTime p + d > 1 then ''sprint''
                 else ''walk'')"
  using assms by (simp add: animationStateMachine_def Let_def)

lemma animationStateMachine_clip_still:
  assumes "map_of (animations p) ''idle'' \<noteq> None"
  shows "currentAnimation (animationStateMachine d True False p) = Some ''idle''"
  using assms by (simp add: animationStateMachine_def Let_def)

lemma simulate_grounded_clip:
  assumes "groundedNow rc p"
    and "map_of (animations p) ''idle'' \<noteq> None"
    and "map_of (animations p) ''walk'' \<noteq> None"
    and "map_of (animations p) ''sprint'' \<noteq> None"
  shows "currentAnimation (simulate d c rc p) =
           Some (if moving c
                 then (if sprinting (state p) \<or> walkToSprintTime p + d > 1 then ''sprint''
                       else ''walk'')
                 else ''idle'')"
proof (cases "moving c")
  case True
  with assms show ?thesis
    by (simp add: simulate_def Let_def groundedNow_def rayHits_def
        animationStateMachine_clip_moving)
next
  case False
  with assms show ?thesis
    by (simp add: simulate_def Let_def groundedNow_def rayHits_def
        animationStateMachine_clip_still)
qed

subsection \<open>Landing\<close>

lemma update_fields_running:
  assumes "hasModel p" and "hasMixer p" and "\<not> vy (position (simulate d c rc p)) < -50"
  shows "position (update d c rc p) = position (simulate d c rc p)"
    and "verticalVelocity (update d c rc p) = verticalVelocity (simulate d c rc p)"
    and "timeSinceGrounded (update d c rc p) = timeSinceGrounded (simulate d c rc p)"
    and "state (update d c rc p) = state (simulate d c rc p)"
    and "walkToSprintTime (update d c rc p) = walkToSprintTime (simulate d c rc p)"
    and "currentAnimation (update d c rc p) = currentAnimation (simulate d c rc p)"
    and "rotationX (update d c rc p) = rotationX (simulate d c rc p)"
  by (simp_all add: update_running [OF assms])

lemma groundedNow_iff:
  "groundedNow rc p =
     (rayHits rc p \<noteq> [] \<and>
      distance (hd (rayHits rc p)) < RAYCAST_HEIGHT + feetOffset p + GROUND_TOLERANCE)"
  by (simp add: groundedNow_def groundSensor_def split: list.split)

lemma animationStateMachine_selected_clip:
  assumes "map_of (animations p)
             (if sprinting (state p) \<or> walkToSprintTime p + d > 1 then ''sprint''
              else ''walk'') \<noteq> None"
  shows "currentAnimation (animationStateMachine d True True p) =
           Some (if sprinting (state p) \<or> walkToSprintTime p + d > 1 then ''sprint''
                 else ''walk'')"
proof (cases "sprinting (state p)")
  case True
  with assms show ?thesis
    by (simp add: animationStateMachine_def Let_def)
next
  case False
  show ?thesis
  proof (cases "walkToSprintTime p + d > 1")
    case True
    with False assms show ?thesis
      by (simp add: animationStateMachine_def Let_def)
  next
    case slow: False
    with False assms show ?thesis
      by (simp add: animationStateMachine_def Let_def)
  qed
qed

lemma simulate_selected_clip:
  assumes "groundedNow rc p"
    and "map_of (animations p)
           (if moving c
            then (if sprinting (state (simulate d c rc p)) then ''sprint'' else ''walk'')
            else ''idle'') \<noteq> None"
  shows "currentAnimation (simulate d c rc p) =
           Some (if moving c
                 then (if sprinting (state (simulate d c rc p)) then ''sprint'' else ''walk'')
                 else ''idle'')"
proof (cases "moving c")
  case True
  have s: "sprinting (state (simulate d c rc p)) =
      (sprinting (state p) \<or> walkToSprintTime p + d > 1)"
    using assms(1) True by (simp add: simulate_grounded_state)
  let ?q = "verticalPhysics d True (rayHits rc p)
              (movementInput d c True (jumpInput True c (leaveGround False (groundCheck d True p))))"
  have q: "simulate d c rc p = animationStateMachine d True True ?q"
    using assms(1) True by (simp add: simulate_def Let_def groundedNow_def rayHits_def)
  have "map_of (animations ?q)
          (if sprinting (state ?q) \<or> walkToSprintTime ?q + d > 1 then ''sprint''
           else ''walk'') \<noteq> None"
    using assms(2) True by (simp add: s)
  from animationStateMachine_selected_clip [OF this]
  have "currentAnimation (simulate d c rc p) =
      Some (if sprinting (state p) \<or> walkToSprintTime p + d > 1 then ''sprint'' else ''walk'')"
    by (simp add: q)
  then show ?thesis
    using True by (simp add: s)
next
  case False
  with assms show ?thesis
    by (simp add: simulate_def Let_def groundedNow_def rayHits_def
        animationStateMachine_clip_still)
qed

lemma simulate_missing_idle:
  assumes "groundedNow rc p" and "\<not> moving c" and "\<not> jump c"
    and "map_of (animations p) ''idle'' = None"
  shows "currentAnimation (simulate d c rc p) = currentAnimation p"
  using assms
  by (simp add: simulate_def Let_def groundedNow_def rayHits_def animationStateMachine_def
      jumpInput_def leaveGround_def switchAnimation_missing)

lemma reset_clip:
  "hasModel p \<Longrightarrow> map_of (animations p) ''jump'' \<noteq> None \<Longrightarrow>
   currentAnimation (reset p) = Some ''jump''"
  by (simp add: reset_def)

text \<open>
  C4, as the code has it. A frame of a loaded player in which the ray has a closest hit
  nearer than probe height plus feet offset plus tolerance has ground contact; no hit is
  no contact. If such a frame ends in the void reset, the update is the reset: the
  character is at the spawn point with the spawn velocity. Otherwise
  \<open>timeSinceGrounded\<close> is 0 and \<open>falling\<close> is cleared; if the vertical velocity after
  the gravity step of the frame is negative, as it is for a falling character without
  jump input, it is set to 0 and the character is put at the height of the hit point
  plus the feet offset; and the clip the state machine asks for is idle without movement
  input and walk or sprint with it (sprint exactly if \<open>sprinting\<close> is set at the end of
  the frame): when that clip is loaded it is the current clip at the end of the frame,
  so the jump clip is not.
\<close>

theorem landing_frame:
  assumes "hasModel p" and "hasMixer p"
    and "rayHits raycast p \<noteq> []"
    and "distance (hd (rayHits raycast p)) < RAYCAST_HEIGHT + feetOffset p + GROUND_TOLERANCE"
  shows "groundedNow raycast p \<and>
         \<not> groundSensor [] (feetOffset p) \<and>
         (vy (position (simulate delta c raycast p)) < -50 \<longrightarrow>
            update delta c raycast p = reset (simulate delta c raycast p) \<and>
            position (update delta c raycast p) = spawnPoint p \<and>
            verticalVelocity (update delta c raycast p) = SPAWN_INITIAL_VELOCITY) \<and>
         (\<not> vy (position (simulate delta c raycast p)) < -50 \<longrightarrow>
            timeSinceGrounded (update delta c raycast p) = 0 \<and>
            \<not> falling (state (update delta c raycast p)) \<and>
            jumping (state (update delta c raycast p)) = jump c \<and>
            (max TERMINAL_VELOCITY
               ((if jump c then JUMP_FORCE else verticalVelocity p) + GRAVITY * delta) < 0 \<longrightarrow>
               verticalVelocity (update delta c raycast p) = 0 \<and>
               vy (position (update delta c raycast p)) =
                 vy (point (hd (rayHits raycast p))) + feetOffset p) \<and>
            (\<not> jump c \<and> verticalVelocity p < 0 \<and> 0 \<le> delta \<longrightarrow>
               verticalVelocity (update delta c raycast p) = 0 \<and>
               vy (position (update delta c raycast p)) =
                 vy (point (hd (rayHits raycast p))) + feetOffset p) \<and>
            (map_of (animations p)
               (if moving c
                then (if sprinting (state (update delta c raycast p)) then ''sprint''
                      else ''walk'')
                else ''idle'') \<noteq> None \<longrightarrow>
               currentAnimation (update delta c raycast p) =
                 Some (if moving c
                       then (if sprinting (state (update delta c raycast p)) then ''sprint''
                             else ''walk'')
                       else ''idle'') \<and>
               currentAnimation (update delta c raycast p) \<noteq> Some ''jump''))"
proof -
  have hit: "groundedNow raycast p"
    using assms(3,4) by (simp add: groundedNow_iff)
  have none: "\<not> groundSensor [] (feetOffset p)"
    by (simp add: groundSensor_def)
  have respawn: "update delta c raycast p = reset (simulate delta c raycast p) \<and>
      position (update delta c raycast p) = spawnPoint p \<and>
      verticalVelocity (update delta c raycast p) = SPAWN_INITIAL_VELOCITY"
    if "vy (position (simulate delta c raycast p)) < -50"
    using that assms(1,2) by (simp add: update_def housekeeping_def reset_values)
  have landing: "timeSinceGrounded (update delta c raycast p) = 0 \<and>
      \<not> falling (state (update delta c raycast p)) \<and>
      jumping (state (update delta c raycast p)) = jump c \<and>
      (max TERMINAL_VELOCITY
         ((if jump c then JUMP_FORCE else verticalVelocity p) + GRAVITY * delta) < 0 \<longrightarrow>
         verticalVelocity (update delta c raycast p) = 0 \<and>
         vy (position (update delta c raycast p)) =
           vy (point (hd (rayHits raycast p))) + feetOffset p) \<and>
      (\<not> jump c \<and> verticalVelocity p < 0 \<and> 0 \<le> delta \<longrightarrow>
         verticalVelocity (update delta c raycast p) = 0 \<and>
         vy (position (update delta c raycast p)) =
           vy (point (hd (rayHits raycast p))) + feetOffset p) \<and>
      (map_of (animations p)
         (if moving c
          then (if sprinting (state (update delta c raycast p)) then ''sprint'' else ''walk'')
          else ''idle'') \<noteq> None \<longrightarrow>
         currentAnimation (update delta c raycast p) =
           Some (if moving c
                 then (if sprinting (state (update delta c raycast p)) then ''sprint''
                       else ''walk'')
                 else ''idle'') \<and>
         currentAnimation (update delta c raycast p) \<noteq> Some ''jump'')"
    if v: "\<not> vy (position (simulate delta c raycast p)) < -50"
  proof -
    note run = update_fields_running [OF assms(1,2) v]
    have flags: "timeSinceGrounded (update delta c raycast p) = 0 \<and>
        \<not> falling (state (update delta c raycast p)) \<and>
        jumping (state (update delta c raycast p)) = jump c"
      using hit by (simp add: run simulate_tsg simulate_grounded_state)
    have snap: "verticalVelocity (update delta c raycast p) = 0 \<and>
        vy (position (update delta c raycast p)) =
          vy (point (hd (rayHits raycast p))) + feetOffset p"
      if "max TERMINAL_VELOCITY
            ((if jump c then JUMP_FORCE else verticalVelocity p) + GRAVITY * delta) < 0"
      using hit that simulate_landing_y [OF hit that]
      by (simp add: run simulate_vv Let_def)
    have neg: "max TERMINAL_VELOCITY
            ((if jump c then JUMP_FORCE else verticalVelocity p) + GRAVITY * delta) < 0"
      if "\<not> jump c" and "verticalVelocity p < 0" and "0 \<le> delta"
    proof -
      have "GRAVITY * delta \<le> 0"
        using that(3) by (simp add: GRAVITY_def)
      with that show ?thesis by (simp add: TERMINAL_VELOCITY_def)
    qed
    have clip: "currentAnimation (update delta c raycast p) =
        Some (if moving c
              then (if sprinting (state (update delta c raycast p)) then ''sprint''
                    else ''walk'')
              else ''idle'')"
      if "map_of (animations p)
            (if moving c
             then (if sprinting (state (update delta c raycast p)) then ''sprint'' else ''walk'')
             else ''idle'') \<noteq> None"
    proof -
      from that have "map_of (animations p)
          (if moving c
           then (if sprinting (state (simulate delta c raycast p)) then ''sprint'' else ''walk'')
           else ''idle'') \<noteq> None"
        unfolding run(4) .
      from simulate_selected_clip [OF hit this] show ?thesis
        unfolding run(4) run(6) .
    qed
    have other: "(if moving c
          then (if sprinting (state (update delta c raycast p)) then ''sprint'' else ''walk'')
          else ''idle'') \<noteq> ''jump''"
      by simp
    from flags snap neg clip other show ?thesis
      by simp
  qed
  from hit none respawn landing show ?thesis
    by blast
qed

lemma touchdown_player_fields:
  "hasModel (player touchdownViewer)"
  "hasMixer (player touchdownViewer)"
  "feetOffset (player touchdownViewer) = 1"
  "verticalVelocity (player touchdownViewer) = -45"
  "map_of (animations (player touchdownViewer)) ''idle'' \<noteq> None"
  "map_of (animations (player touchdownViewer)) ''walk'' \<noteq> None"
  "map_of (animations (player touchdownViewer)) ''sprint'' \<noteq> None"
  by (simp_all add: touchdownViewer_def loadedPlayer_fields loadedPlayer_animations)

lemma touchdown_y:
  "vy (position (simulate (1 / 60) noInput flatWorld (player touchdownViewer))) = 1"
  using simulate_landing_y [OF touchdown_grounded, of noInput "1 / 60"]
  by (simp add: touchdownViewer_def noInput_def player_consts rayHits_def flatWorld_def
      vec_def loadedPlayer_fields)

lemma deepLandingPlayer_fields:
  "hasModel deepLandingPlayer"
  "hasMixer deepLandingPlayer"
  "feetOffset deepLandingPlayer = 1"
  "spawnPoint deepLandingPlayer = vec 0 240 0"
  "position deepLandingPlayer = vec 0 (- (2499 / 50)) 0"
  "verticalVelocity deepLandingPlayer = -45"
  "map_of (animations deepLandingPlayer) ''jump'' \<noteq> None"
  by (simp_all add: deepLandingPlayer_def loadedPlayer_fields loadedPlayer_animations)

lemma deepLandingPlayer_grounded: "groundedNow deepWorld deepLandingPlayer"
  by (simp add: groundedNow_def rayHits_def groundSensor_def deepWorld_def vec_def
      deepLandingPlayer_fields player_consts)

lemma deepLandingPlayer_below:
  "vy (position (simulate (1 / 60) noInput deepWorld deepLandingPlayer)) < -50"
  using simulate_landing_y [OF deepLandingPlayer_grounded, of noInput "1 / 60"]
  by (simp add: deepLandingPlayer_fields noInput_def player_consts rayHits_def deepWorld_def
      vec_def)

theorem landing_frame_witness:
  "hasModel (player touchdownViewer) \<and> hasMixer (player touchdownViewer) \<and>
   rayHits flatWorld (player touchdownViewer) \<noteq> [] \<and>
   distance (hd (rayHits flatWorld (player touchdownViewer)))
     < RAYCAST_HEIGHT + feetOffset (player touchdownViewer) + GROUND_TOLERANCE \<and>
   \<not> vy (position (simulate (1 / 60) noInput flatWorld (player touchdownViewer))) < -50 \<and>
   map_of (animations (player touchdownViewer)) ''idle'' \<noteq> None \<and>
   verticalVelocity (player touchdownViewer) < 0 \<and>
   timeSinceGrounded (update (1 / 60) noInput flatWorld (player touchdownViewer)) = 0 \<and>
   verticalVelocity (update (1 / 60) noInput flatWorld (player touchdownViewer)) = 0 \<and>
   currentAnimation (update (1 / 60) noInput flatWorld (player touchdownViewer)) = Some ''idle'' \<and>
   hasModel deepLandingPlayer \<and> hasMixer deepLandingPlayer \<and>
   rayHits deepWorld deepLandingPlayer \<noteq> [] \<and>
   distance (hd (rayHits deepWorld deepLandingPlayer))
     < RAYCAST_HEIGHT + feetOffset deepLandingPlayer + GROUND_TOLERANCE \<and>
   vy (position (simulate (1 / 60) noInput deepWorld deepLandingPlayer)) < -50 \<and>
   position (update (1 / 60) noInput deepWorld deepLandingPlayer) = vec 0 240 0"
proof -
  have y: "\<not> vy (position (simulate (1 / 60) noInput flatWorld (player touchdownViewer))) < -50"
    by (simp add: touchdown_y)
  have land: "timeSinceGrounded (update (1 / 60) noInput flatWorld (player touchdownViewer)) = 0 \<and>
      verticalVelocity (update (1 / 60) noInput flatWorld (player touchdownViewer)) = 0 \<and>
      currentAnimation (update (1 / 60) noInput flatWorld (player touchdownViewer)) = Some ''idle''"
    using landing_frame [OF touchdown_player_fields(1,2)
        touchdown_grounded [unfolded groundedNow_iff, THEN conjunct1]
        touchdown_grounded [unfolded groundedNow_iff, THEN conjunct2], of "1 / 60" noInput]
      y
    by (auto simp add: touchdown_player_fields noInput_def moving_def)
  have void: "position (update (1 / 60) noInput deepWorld deepLandingPlayer) = vec 0 240 0"
    using landing_frame [OF deepLandingPlayer_fields(1,2)
        deepLandingPlayer_grounded [unfolded groundedNow_iff, THEN conjunct1]
        deepLandingPlayer_grounded [unfolded groundedNow_iff, THEN conjunct2],
        of "1 / 60" noInput] deepLandingPlayer_below
    by (auto simp add: deepLandingPlayer_fields)
  from y land void touchdown_grounded [unfolded groundedNow_iff]
    deepLandingPlayer_grounded [unfolded groundedNow_iff]
  show ?thesis
    by (simp add: touchdown_player_fields deepLandingPlayer_fields deepLandingPlayer_below)
qed

lemma sprintJumpPlayer_fields:
  "hasModel sprintJumpPlayer"
  "hasMixer sprintJumpPlayer"
  "feetOffset sprintJumpPlayer = 1"
  "position sprintJumpPlayer = vec 0 1 0"
  "verticalVelocity sprintJumpPlayer = -5"
  "walkToSprintTime sprintJumpPlayer = 101 / 100"
  "state sprintJumpPlayer =
     \<lparr>idle = False, walking = False, sprinting = True, jumping = True, falling = False\<rparr>"
  "currentAnimation sprintJumpPlayer = Some ''idle''"
  "map_of (animations sprintJumpPlayer) ''idle'' \<noteq> None"
  "map_of (animations sprintJumpPlayer) ''walk'' \<noteq> None"
  "map_of (animations sprintJumpPlayer) ''sprint'' \<noteq> None"
  by (simp_all add: sprintJumpPlayer_def loadedPlayer_fields loadedPlayer_animations)

lemma sprintJumpPlayer_grounded: "groundedNow flatWorld sprintJumpPlayer"
  by (simp add: groundedNow_def rayHits_def groundSensor_def flatWorld_def vec_def
      sprintJumpPlayer_fields player_consts)

lemma sprintJumpPlayer_y:
  "vy (position (simulate (1 / 60) (noInput\<lparr>forward := True\<rparr>) flatWorld sprintJumpPlayer)) = 1"
  using simulate_landing_y [OF sprintJumpPlayer_grounded, of "noInput\<lparr>forward := True\<rparr>" "1 / 60"]
  by (simp add: sprintJumpPlayer_fields noInput_def player_consts rayHits_def flatWorld_def
      vec_def)

lemma sprintJumpPlayer_lands_sprinting:
  "currentAnimation (update (1 / 60) (noInput\<lparr>forward := True\<rparr>) flatWorld sprintJumpPlayer) =
     Some ''sprint''"
proof -
  let ?c = "noInput\<lparr>forward := True\<rparr>"
  have y: "\<not> vy (position (simulate (1 / 60) ?c flatWorld sprintJumpPlayer)) < -50"
    by (simp add: sprintJumpPlayer_y)
  have "currentAnimation (simulate (1 / 60) ?c flatWorld sprintJumpPlayer) = Some ''sprint''"
    using simulate_grounded_clip [OF sprintJumpPlayer_grounded sprintJumpPlayer_fields(9,10,11),
        of "1 / 60" ?c]
    by (simp add: moving_def noInput_def sprintJumpPlayer_fields)
  then show ?thesis
    by (simp only: update_fields_running(6) [OF sprintJumpPlayer_fields(1,2) y])
qed

lemma deepLandingPlayer_respawns:
  "verticalVelocity (update (1 / 60) noInput deepWorld deepLandingPlayer) = -1"
  "position (update (1 / 60) noInput deepWorld deepLandingPlayer) = vec 0 240 0"
  "currentAnimation (update (1 / 60) noInput deepWorld deepLandingPlayer) = Some ''jump''"
proof -
  let ?q = "simulate (1 / 60) noInput deepWorld deepLandingPlayer"
  have u: "update (1 / 60) noInput deepWorld deepLandingPlayer = reset ?q"
    using deepLandingPlayer_below
    by (simp add: update_def housekeeping_def deepLandingPlayer_fields)
  have m: "hasModel ?q" and j: "map_of (animations ?q) ''jump'' \<noteq> None"
    by (simp_all add: deepLandingPlayer_fields)
  show "verticalVelocity (update (1 / 60) noInput deepWorld deepLandingPlayer) = -1"
    unfolding u using reset_values(4) [OF m] by (simp add: SPAWN_INITIAL_VELOCITY_def)
  show "position (update (1 / 60) noInput deepWorld deepLandingPlayer) = vec 0 240 0"
    unfolding u using reset_values(1) [OF m] by (simp add: deepLandingPlayer_fields)
  show "currentAnimation (update (1 / 60) noInput deepWorld deepLandingPlayer) = Some ''jump''"
    unfolding u by (rule reset_clip [OF m j])
qed

lemma jumpOnlyPlayer_fields:
  "hasModel jumpOnlyPlayer"
  "hasMixer jumpOnlyPlayer"
  "feetOffset jumpOnlyPlayer = 1"
  "position jumpOnlyPlayer = vec 0 1 0"
  "verticalVelocity jumpOnlyPlayer = -45"
  "currentAnimation jumpOnlyPlayer = Some ''jump''"
  "map_of (animations jumpOnlyPlayer) ''idle'' = None"
  by (simp_all add: jumpOnlyPlayer_def load_def Let_def newPlayer_def addClip_def clipKey_def
      toLowerCase_def toLowerChar_def assign_def switchAnimation_def updateAction_def
      animationKey_def vec_def)

lemma jumpOnlyPlayer_grounded: "groundedNow flatWorld jumpOnlyPlayer"
  by (simp add: groundedNow_def rayHits_def groundSensor_def flatWorld_def vec_def
      jumpOnlyPlayer_fields player_consts)

lemma jumpOnlyPlayer_keeps_jump_clip:
  "currentAnimation (update (1 / 60) noInput flatWorld jumpOnlyPlayer) = Some ''jump''"
proof -
  have y: "vy (position (simulate (1 / 60) noInput flatWorld jumpOnlyPlayer)) = 1"
    using simulate_landing_y [OF jumpOnlyPlayer_grounded, of noInput "1 / 60"]
    by (simp add: jumpOnlyPlayer_fields noInput_def player_consts rayHits_def flatWorld_def
        vec_def)
  then have v: "\<not> vy (position (simulate (1 / 60) noInput flatWorld jumpOnlyPlayer)) < -50"
    by simp
  have "currentAnimation (simulate (1 / 60) noInput flatWorld jumpOnlyPlayer) = Some ''jump''"
    using simulate_missing_idle [OF jumpOnlyPlayer_grounded _ _ jumpOnlyPlayer_fields(7),
        of noInput "1 / 60"]
    by (simp add: moving_def noInput_def jumpOnlyPlayer_fields)
  then show ?thesis
    by (simp only: update_fields_running(6) [OF jumpOnlyPlayer_fields(1,2) v])
qed

text \<open>
  Three frames with ground contact and a negative vertical velocity. \<open>sprintJumpPlayer\<close>
  touches the ground with forward held, and the clip at the end of the frame is the
  sprint clip, neither idle nor walk. \<open>deepLandingPlayer\<close> touches ground that lies
  below the void height: the frame ends in the reset, with velocity -1, at the spawn
  point and with the jump clip. \<open>jumpOnlyPlayer\<close> has no idle clip: the frame ends with
  the jump clip still current.
\<close>

theorem landing_frame_counterexample:
  "groundedNow flatWorld sprintJumpPlayer \<and> verticalVelocity sprintJumpPlayer < 0 \<and>
   currentAnimation (update (1 / 60) (noInput\<lparr>forward := True\<rparr>) flatWorld sprintJumpPlayer) =
     Some ''sprint'' \<and>
   currentAnimation (update (1 / 60) (noInput\<lparr>forward := True\<rparr>) flatWorld sprintJumpPlayer) \<noteq>
     Some ''idle'' \<and>
   currentAnimation (update (1 / 60) (noInput\<lparr>forward := True\<rparr>) flatWorld sprintJumpPlayer) \<noteq>
     Some ''walk'' \<and>
   groundedNow deepWorld deepLandingPlayer \<and> verticalVelocity deepLandingPlayer < 0 \<and>
   verticalVelocity (update (1 / 60) noInput deepWorld deepLandingPlayer) = -1 \<and>
   position (update (1 / 60) noInput deepWorld deepLandingPlayer) = vec 0 240 0 \<and>
   currentAnimation (update (1 / 60) noInput deepWorld deepLandingPlayer) = Some ''jump'' \<and>
   groundedNow flatWorld jumpOnlyPlayer \<and> verticalVelocity jumpOnlyPlayer < 0 \<and>
   currentAnimation (update (1 / 60) noInput flatWorld jumpOnlyPlayer) = Some ''jump''"
  by (simp add: sprintJumpPlayer_grounded sprintJumpPlayer_fields
      sprintJumpPlayer_lands_sprinting deepLandingPlayer_grounded deepLandingPlayer_fields
      deepLandingPlayer_respawns jumpOnlyPlayer_grounded jumpOnlyPlayer_fields
      jumpOnlyPlayer_keeps_jump_clip)

subsection \<open>Sprinting through a jump\<close>

lemma update_loaded [simp]:
  "hasModel (update d c rc p) = hasModel p"
  "hasMixer (update d c rc p) = hasMixer p"
  "feetOffset (update d c rc p) = feetOffset p"
  by (simp_all add: update_def housekeeping_def reset_fields)






subsection \<open>A sprint jump on flat ground\<close>















end
